theory Spec2Isabelle
  imports Complex_Main
begin

section \<open>Values and exceptions\<close>

text \<open>
  The exceptions the embedded functions can raise. A function that can raise returns
  \<open>pyerror + 'a\<close>, with \<open>Inl\<close> for the exception.
\<close>

datatype pyerror = IndexError | TypeError | ValueError | KeyError | ZeroDivisionError | OverflowError

text \<open>
  Python floats. A finite float is the real number it denotes; the three special values
  are kept, since comparisons with them decide which branch the code takes. Comparisons
  of floats are exact and are defined here. The operations whose results are rounded are
  not defined: they are parameters of the model (the records \<open>arith\<close> and \<open>env\<close>
  below), so that what is proved holds for the values the machine operations return.
\<close>

datatype pyfloat = Fin real | PInf | NInf | NaN

text \<open>\<open>a < b\<close> on floats: false whenever an operand is NaN.\<close>

fun flt :: "pyfloat \<Rightarrow> pyfloat \<Rightarrow> bool" where
  "flt NaN b = False"
| "flt a NaN = False"
| "flt (Fin a) (Fin b) = (a < b)"
| "flt (Fin a) PInf = True"
| "flt (Fin a) NInf = False"
| "flt PInf b = False"
| "flt NInf NInf = False"
| "flt NInf b = True"

text \<open>\<open>a > b\<close> is \<open>b < a\<close>.\<close>

definition fgt :: "pyfloat \<Rightarrow> pyfloat \<Rightarrow> bool" where
  "fgt a b = flt b a"

text \<open>\<open>a != 0\<close>, which is also the truth value of a float: only zero is false.\<close>

definition nonzero :: "pyfloat \<Rightarrow> bool" where
  "nonzero a = (a \<noteq> Fin 0)"

text \<open>A point is a coordinate pair \<open>(x, y)\<close>.\<close>

type_synonym point = "pyfloat \<times> pyfloat"

text \<open>
  The two float operations of the distance searches, as the machine computes them:
  \<open>math_dist\<close> is \<open>math.dist(p, q)\<close> on two-dimensional points and \<open>f_mul\<close> is the
  product \<open>a * b\<close>.
\<close>

record arith =
  math_dist :: "point \<Rightarrow> point \<Rightarrow> pyfloat"
  f_mul :: "pyfloat \<Rightarrow> pyfloat \<Rightarrow> pyfloat"

text \<open>Reading and writing a list element; both raise IndexError out of range.\<close>

definition read_at :: "'a list \<Rightarrow> nat \<Rightarrow> pyerror + 'a" where
  "read_at xs i = (if i < length xs then Inr (xs ! i) else Inl IndexError)"

definition write_at :: "'a list \<Rightarrow> nat \<Rightarrow> 'a \<Rightarrow> pyerror + 'a list" where
  "write_at xs i v = (if i < length xs then Inr (xs[i := v]) else Inl IndexError)"

section \<open>Downsampling (input_output/contours.py)\<close>

text \<open>
  \<open>range(0, stop, step)\<close> as a list; a zero step raises ValueError. The list is built
  by counting: it has \<open>\<lceil>stop / step\<rceil>\<close> elements \<open>0, step, 2 * step, \<dots>\<close>.
\<close>

definition py_range :: "nat \<Rightarrow> nat \<Rightarrow> pyerror + nat list" where
  "py_range stop step =
     (if step = 0 then Inl ValueError
      else Inr (map (\<lambda>k. k * step) [0..<(stop + step - 1) div step]))"

text \<open>\<open>[xs[point] for point in points_to_sample]\<close>: IndexError at the first bad index.\<close>

fun sample :: "'a list \<Rightarrow> nat list \<Rightarrow> pyerror + 'a list" where
  "sample xs [] = Inr []"
| "sample xs (i # is) =
     (case read_at xs i of
        Inl e \<Rightarrow> Inl e
      | Inr v \<Rightarrow> (case sample xs is of Inl e \<Rightarrow> Inl e | Inr vs \<Rightarrow> Inr (v # vs)))"

text \<open>
  The body of the frame loop of \<open>downsample\<close> for one frame. \<open>xs\<close> is
  \<open>contours[0][frame]\<close>; \<open>ys\<close> is what reading \<open>contours[1][frame]\<close> gives, which
  happens only after the range is built and the x axis is sampled. An empty x list leaves
  both outputs empty; otherwise the stride is \<open>len(xs) // num_points\<close> and both axes are
  sampled at the same indices, taken from the length of the x list.
\<close>

definition downsample_frame ::
  "'a list \<Rightarrow> pyerror + 'a list \<Rightarrow> nat \<Rightarrow> pyerror + ('a list \<times> 'a list)" where
  "downsample_frame xs ys num_points =
     (if xs = [] then Inr ([], [])
      else if num_points = 0 then Inl ZeroDivisionError
      else case py_range (length xs) (length xs div num_points) of
        Inl e \<Rightarrow> Inl e
      | Inr points_to_sample \<Rightarrow>
          (case sample xs points_to_sample of
             Inl e \<Rightarrow> Inl e
           | Inr dx \<Rightarrow>
               (case ys of
                  Inl e \<Rightarrow> Inl e
                | Inr ys' \<Rightarrow>
                    (case sample ys' points_to_sample of
                       Inl e \<Rightarrow> Inl e
                     | Inr dy \<Rightarrow> Inr (dx, dy)))))"

text \<open>The frame loop: \<open>contours[0]\<close> gives the number of frames.\<close>

fun downsample_frames ::
  "'a list list \<Rightarrow> 'a list list \<Rightarrow> nat \<Rightarrow> nat list \<Rightarrow> pyerror + ('a list list \<times> 'a list list)" where
  "downsample_frames cx cy num_points [] = Inr ([], [])"
| "downsample_frames cx cy num_points (frame # frames) =
     (case downsample_frame (cx ! frame) (read_at cy frame) num_points of
        Inl e \<Rightarrow> Inl e
      | Inr (dx, dy) \<Rightarrow>
          (case downsample_frames cx cy num_points frames of
             Inl e \<Rightarrow> Inl e
           | Inr (dxs, dys) \<Rightarrow> Inr (dx # dxs, dy # dys)))"

definition downsample ::
  "'a list list \<times> 'a list list \<Rightarrow> nat \<Rightarrow> pyerror + ('a list list \<times> 'a list list)" where
  "downsample contours num_points =
     downsample_frames (fst contours) (snd contours) num_points [0..<length (fst contours)]"

text \<open>The default of the keyword argument \<open>num_points\<close>.\<close>

definition default_num_points :: nat where
  "default_num_points = 20"

section \<open>Contour extraction (input_output/contours.py)\<close>

text \<open>
  A mask frame is a raster of pixel values. \<open>measure.find_contours\<close> (scikit-image) and
  \<open>Path.contains_point\<close> (matplotlib) are library code; they are parameters of the
  model: \<open>find_contours\<close> gives the traced boundaries of a frame, each a list of
  \<open>(row, column)\<close> points, and \<open>contains_point\<close> is the point-in-polygon test.
\<close>

type_synonym mask = "int list list"

text \<open>
  \<open>label_contours\<close> turns each traced boundary into the pair of its row coordinates
  and its column coordinates.
\<close>

definition label_contours ::
  "(mask \<Rightarrow> point list list) \<Rightarrow> mask \<Rightarrow> (pyfloat list \<times> pyfloat list) list" where
  "label_contours find_contours img = map (\<lambda>contour. (map fst contour, map snd contour)) (find_contours img)"

text \<open>
  \<open>keep_valid_contour\<close>: the path through the transposed contour must contain the
  point \<open>[image_shape[0] // 2, image_shape[1] // 2]\<close>.
\<close>

definition keep_valid_contour ::
  "(point list \<Rightarrow> nat \<times> nat \<Rightarrow> bool) \<Rightarrow> pyfloat list \<times> pyfloat list \<Rightarrow> nat \<times> nat \<Rightarrow> bool" where
  "keep_valid_contour contains_point contour image_shape =
     contains_point (zip (fst contour) (snd contour)) (fst image_shape div 2, snd image_shape div 2)"

text \<open>
  The loop of \<open>keep_largest_contour\<close>, with its two variables \<open>max_length\<close> and
  \<open>keep_contour\<close>; the kept contour has the columns first, then the rows.
\<close>

fun keep_largest_loop ::
  "(point list \<Rightarrow> nat \<times> nat \<Rightarrow> bool) \<Rightarrow> nat \<times> nat \<Rightarrow> nat \<Rightarrow> pyfloat list \<times> pyfloat list \<Rightarrow>
   (pyfloat list \<times> pyfloat list) list \<Rightarrow> pyfloat list \<times> pyfloat list" where
  "keep_largest_loop contains_point image_shape max_length keep_contour [] = keep_contour"
| "keep_largest_loop contains_point image_shape max_length keep_contour (contour # contours) =
     (if keep_valid_contour contains_point contour image_shape \<and> length (fst contour) > max_length
      then keep_largest_loop contains_point image_shape (length (fst contour))
             (snd contour, fst contour) contours
      else keep_largest_loop contains_point image_shape max_length keep_contour contours)"

definition keep_largest_contour ::
  "(point list \<Rightarrow> nat \<times> nat \<Rightarrow> bool) \<Rightarrow> (pyfloat list \<times> pyfloat list) list \<Rightarrow> nat \<times> nat \<Rightarrow>
   pyfloat list \<times> pyfloat list" where
  "keep_largest_contour contains_point contours image_shape =
     keep_largest_loop contains_point image_shape 0 ([], []) contours"

text \<open>\<open>np.any(preds[frame, :, :] == 1)\<close>\<close>

definition any_foreground :: "mask \<Rightarrow> bool" where
  "any_foreground img = (\<exists>row \<in> set img. 1 \<in> set row)"

text \<open>The body of the frame loop of \<open>get_contours\<close>: what is appended for one frame.\<close>

definition get_contours_frame ::
  "(mask \<Rightarrow> point list list) \<Rightarrow> (point list \<Rightarrow> nat \<times> nat \<Rightarrow> bool) \<Rightarrow> mask \<Rightarrow> nat \<times> nat \<Rightarrow>
   pyfloat list \<times> pyfloat list" where
  "get_contours_frame find_contours contains_point img image_shape =
     (if any_foreground img
      then keep_largest_contour contains_point (label_contours find_contours img) image_shape
      else ([], []))"

fun get_contours ::
  "(mask \<Rightarrow> point list list) \<Rightarrow> (point list \<Rightarrow> nat \<times> nat \<Rightarrow> bool) \<Rightarrow> mask list \<Rightarrow> nat \<times> nat \<Rightarrow>
   pyfloat list list \<times> pyfloat list list" where
  "get_contours find_contours contains_point [] image_shape = ([], [])"
| "get_contours find_contours contains_point (img # preds) image_shape =
     (let keep = get_contours_frame find_contours contains_point img image_shape;
          lumen_pred = get_contours find_contours contains_point preds image_shape
      in (fst keep # fst lumen_pred, snd keep # snd lumen_pred))"

definition mask_to_contours ::
  "(mask \<Rightarrow> point list list) \<Rightarrow> (point list \<Rightarrow> nat \<times> nat \<Rightarrow> bool) \<Rightarrow> mask list \<Rightarrow> nat \<times> nat \<Rightarrow>
   pyerror + (pyfloat list list \<times> pyfloat list list)" where
  "mask_to_contours find_contours contains_point masks image_shape =
     downsample (get_contours find_contours contains_point masks image_shape) default_num_points"

section \<open>Splines (gui/geometry.py)\<close>

text \<open>
  The knot points of a spline are the pair of the x list and the y list. The curve fit
  itself (\<open>splprep\<close> followed by \<open>splev\<close> at 500 parameter values, from SciPy) is a
  parameter \<open>fit\<close> of the model: it gives the dense curve or the exception that
  \<open>splprep\<close> raises (the evaluation of the curve is taken not to raise).

  The attribute \<open>full_contour\<close> holds \<open>None\<close> before any fit, the pair
  \<open>(None, None)\<close> after a fit that failed with ValueError, and the two coordinate
  arrays after a fit that succeeded. The painter path of the graphics item is display
  state and is left out.
\<close>

type_synonym knots = "pyfloat list \<times> pyfloat list"

datatype contour_value = Unset | NoneNone | Curve "pyfloat list" "pyfloat list"

record spline =
  knotpoints :: "knots option"
  full_contour :: contour_value

text \<open>
  \<open>interpolate\<close>: the conversion \<open>np.array(pts)\<close> comes before the \<open>try\<close>; for an
  x list and a y list of different lengths it raises ValueError, which leaves the method.
  Inside the \<open>try\<close> only the ValueError of \<open>splprep\<close> is caught and turned into
  \<open>(None, None)\<close>.
\<close>

definition interpolate :: "(knots \<Rightarrow> pyerror + knots) \<Rightarrow> knots \<Rightarrow> pyerror + contour_value" where
  "interpolate fit pts =
     (if length (fst pts) \<noteq> length (snd pts) then Inl ValueError
      else case fit pts of
        Inl ValueError \<Rightarrow> Inr NoneNone
      | Inl e \<Rightarrow> Inl e
      | Inr (x_new, y_new) \<Rightarrow> Inr (Curve x_new y_new))"

text \<open>
  \<open>setKnotPoints\<close>: the whole body is inside \<open>try \<dots> except IndexError\<close>. Reading
  \<open>points[0][0]\<close> and \<open>points[1][0]\<close> raises IndexError on an empty list; the drawing
  loop reads \<open>full_contour[1][i]\<close> for every index of \<open>full_contour[0]\<close>. The knot
  points are stored only when the fit gave a curve and the loop finished.
\<close>

definition setKnotPoints :: "(knots \<Rightarrow> pyerror + knots) \<Rightarrow> spline \<Rightarrow> knots \<Rightarrow> pyerror + spline" where
  "setKnotPoints fit self points =
     (if fst points = [] \<or> snd points = [] then Inr self
      else case interpolate fit points of
        Inl IndexError \<Rightarrow> Inr self
      | Inl e \<Rightarrow> Inl e
      | Inr NoneNone \<Rightarrow> Inr (self\<lparr>full_contour := NoneNone\<rparr>)
      | Inr Unset \<Rightarrow> Inl TypeError
      | Inr (Curve xs ys) \<Rightarrow>
          (if length xs \<le> length ys
           then Inr (self\<lparr>full_contour := Curve xs ys, knotpoints := Some points\<rparr>)
           else Inr (self\<lparr>full_contour := Curve xs ys\<rparr>)))"

definition Spline_init :: "(knots \<Rightarrow> pyerror + knots) \<Rightarrow> knots \<Rightarrow> pyerror + spline" where
  "Spline_init fit points = setKnotPoints fit \<lparr>knotpoints = None, full_contour = Unset\<rparr> points"

text \<open>
  A call \<open>Spline(points, name=value)\<close> with one keyword argument. Python binds the
  arguments to the parameters of \<open>__init__(self, points, line_thickness=1, color=None)\<close>
  before the body runs, and raises TypeError when the keyword is none of the parameters
  that are still free (\<open>points\<close> is given by position). The two keywords that can be
  bound choose the pen only.
\<close>

definition Spline_keyword :: "(knots \<Rightarrow> pyerror + knots) \<Rightarrow> knots \<Rightarrow> string \<Rightarrow> pyerror + spline" where
  "Spline_keyword fit points name =
     (if name = ''line_thickness'' \<or> name = ''color'' then Spline_init fit points
      else Inl TypeError)"

text \<open>
  \<open>Spline.update(pos, idx)\<close>: the knot at \<open>idx\<close> is overwritten (or a knot appended
  when \<open>idx = len(knotpoints[0]) + 1\<close>), the whole curve is fitted again, and the loop
  over \<open>range(len(self.full_contour[0]))\<close> moves the path elements. \<open>len\<close> of
  \<open>None\<close> raises TypeError, and so does subscripting \<open>self.knotpoints\<close> when it is
  \<open>None\<close>. The index is a natural number: indices counted from the end are not
  modelled.
\<close>

definition update :: "(knots \<Rightarrow> pyerror + knots) \<Rightarrow> spline \<Rightarrow> point \<Rightarrow> nat \<Rightarrow> pyerror + spline" where
  "update fit self pos idx =
     (case knotpoints self of
        None \<Rightarrow> Inl TypeError
      | Some (kx, ky) \<Rightarrow>
          (case (if idx = length kx + 1 then Inr (kx @ [fst pos], ky @ [snd pos])
                 else case write_at kx idx (fst pos) of
                   Inl e \<Rightarrow> Inl e
                 | Inr kx' \<Rightarrow>
                     (case write_at ky idx (snd pos) of
                        Inl e \<Rightarrow> Inl e
                      | Inr ky' \<Rightarrow> Inr (kx', ky'))) of
             Inl e \<Rightarrow> Inl e
           | Inr pts \<Rightarrow>
               (case interpolate fit pts of
                  Inl e \<Rightarrow> Inl e
                | Inr (Curve xs ys) \<Rightarrow>
                    (if length xs \<le> length ys
                     then Inr (self\<lparr>knotpoints := Some pts, full_contour := Curve xs ys\<rparr>)
                     else Inl IndexError)
                | Inr _ \<Rightarrow> Inl TypeError)))"

section \<open>Report metrics (report/report.py)\<close>

subsection \<open>State and exceptions\<close>

text \<open>
  The functions of the report mutate \<open>main_window.data\<close> and can raise after some of
  their writes are done, so they are state transformers that return the exception or the
  result together with the state reached.
\<close>

type_synonym ('s, 'a) prog = "'s \<Rightarrow> (pyerror + 'a) \<times> 's"

definition ret :: "'a \<Rightarrow> ('s, 'a) prog" where
  "ret x = (\<lambda>s. (Inr x, s))"

definition raise :: "pyerror \<Rightarrow> ('s, 'a) prog" where
  "raise e = (\<lambda>s. (Inl e, s))"

definition lift :: "pyerror + 'a \<Rightarrow> ('s, 'a) prog" where
  "lift r = (\<lambda>s. (r, s))"

definition bnd :: "('s, 'a) prog \<Rightarrow> ('a \<Rightarrow> ('s, 'b) prog) \<Rightarrow> ('s, 'b) prog" where
  "bnd m f = (\<lambda>s. case m s of (Inl e, s') \<Rightarrow> (Inl e, s') | (Inr x, s') \<Rightarrow> f x s')"

definition gets :: "('s \<Rightarrow> 'a) \<Rightarrow> ('s, 'a) prog" where
  "gets f = (\<lambda>s. (Inr (f s), s))"

text \<open>\<open>xs[frame]\<close> for a list \<open>xs\<close> held in the state.\<close>

definition fetch :: "('s \<Rightarrow> 'a list) \<Rightarrow> nat \<Rightarrow> ('s, 'a) prog" where
  "fetch field frame = (\<lambda>s. (read_at (field s) frame, s))"

text \<open>
  The per-frame containers of \<open>main_window.data\<close>. The fields carry the names the
  local aliases have in \<open>compute_all\<close>: \<open>farthest_x\<close> is \<open>data['farthest_point'][0]\<close>,
  \<open>nearest_y\<close> is \<open>data['nearest_point'][1]\<close>, \<open>centroid_x\<close> is
  \<open>data['lumen_centroid'][0]\<close>, and so on; \<open>lumen\<close> holds the knot points of every
  frame. A centroid entry is \<open>None\<close> while it holds the loader's empty placeholder.
  The last three keys were added later and can be missing from a loaded dictionary.
\<close>

record data =
  lumen :: "pyfloat list list \<times> pyfloat list list"
  lumen_area :: "pyfloat list"
  lumen_circumf :: "pyfloat list"
  centroid_x :: "pyfloat option list"
  centroid_y :: "pyfloat option list"
  longest_distance :: "pyfloat list"
  farthest_x :: "pyfloat list list"
  farthest_y :: "pyfloat list list"
  shortest_distance :: "pyfloat list"
  nearest_x :: "pyfloat list list"
  nearest_y :: "pyfloat list list"
  elliptic_ratio :: "pyfloat list option"
  vector_length :: "pyfloat list option"
  vector_angle :: "pyfloat list option"

record main_window =
  data :: data
  num_frames :: nat
  resolution :: pyfloat
  images_shape :: "nat \<times> nat \<times> nat"

text \<open>\<open>main_window.data[key][frame] = v\<close> for the container read by \<open>field\<close>.\<close>

definition store ::
  "(data \<Rightarrow> 'a list) \<Rightarrow> (('a list \<Rightarrow> 'a list) \<Rightarrow> data \<Rightarrow> data) \<Rightarrow> nat \<Rightarrow> 'a \<Rightarrow> (main_window, unit) prog" where
  "store field field_update frame v =
     (\<lambda>mw. case write_at (field (data mw)) frame v of
        Inl e \<Rightarrow> (Inl e, mw)
      | Inr xs \<Rightarrow> (Inr (), mw\<lparr>data := field_update (\<lambda>_. xs) (data mw)\<rparr>))"

text \<open>
  A Shapely polygon, as far as the report reads it: the coordinates of its exterior ring
  and the area, length and centroid that Shapely computes.
\<close>

record polygon =
  exterior_coords :: "point list"
  area :: pyfloat
  length_p :: pyfloat
  centroid :: point

subsection \<open>Longest distance\<close>

text \<open>\<open>itertools.combinations(xs, 2)\<close>: all pairs in index order.\<close>

fun combinations2 :: "'a list \<Rightarrow> ('a \<times> 'a) list" where
  "combinations2 [] = []"
| "combinations2 (x # xs) = map (Pair x) xs @ combinations2 xs"

text \<open>The loop of \<open>farthest_points\<close> with its variables \<open>max_distance\<close> and \<open>farthest_points\<close>.\<close>

fun farthest_loop ::
  "arith \<Rightarrow> pyfloat \<Rightarrow> (point \<times> point) option \<Rightarrow> (point \<times> point) list \<Rightarrow>
   pyfloat \<times> (point \<times> point) option" where
  "farthest_loop ar max_distance farthest [] = (max_distance, farthest)"
| "farthest_loop ar max_distance farthest ((point1, point2) # pairs) =
     (let distance = math_dist ar point1 point2
      in if fgt distance max_distance
         then farthest_loop ar distance (Some (point1, point2)) pairs
         else farthest_loop ar max_distance farthest pairs)"

text \<open>
  \<open>farthest_points\<close>: unpacking \<open>farthest_points[0]\<close> raises TypeError when the loop
  left the variable at \<open>None\<close>; there is no handler.
\<close>

definition farthest_points ::
  "arith \<Rightarrow> point list \<Rightarrow> nat \<Rightarrow> (main_window, pyfloat \<times> pyfloat list \<times> pyfloat list) prog" where
  "farthest_points ar coords frame =
     bnd (gets resolution) (\<lambda>res.
       case farthest_loop ar (Fin 0) None (combinations2 coords) of
         (max_distance, None) \<Rightarrow> raise TypeError
       | (max_distance, Some (point1, point2)) \<Rightarrow>
           bnd (store longest_distance longest_distance_update frame (f_mul ar max_distance res)) (\<lambda>_.
           bnd (store farthest_x farthest_x_update frame [fst point1, fst point2]) (\<lambda>_.
           bnd (store farthest_y farthest_y_update frame [snd point1, snd point2]) (\<lambda>_.
           ret (f_mul ar max_distance res, [fst point1, fst point2], [snd point1, snd point2])))))"

subsection \<open>Shortest distance\<close>

text \<open>
  The \<open>while True\<close> loop of \<open>closest_points\<close>: the body runs before the exit test, and
  reading \<open>contour[index]\<close> raises IndexError out of range.
\<close>

function closest_loop ::
  "arith \<Rightarrow> point list \<Rightarrow> pyfloat \<Rightarrow> (point \<times> point) option \<Rightarrow> nat \<Rightarrow> nat \<Rightarrow>
   pyerror + (pyfloat \<times> (point \<times> point) option)" where
  "closest_loop ar contour min_distance closest index_1 index_2 =
     (if index_1 < length contour \<and> index_2 < length contour
      then let distance = math_dist ar (contour ! index_1) (contour ! index_2);
               best = (if flt distance min_distance
                       then (distance, Some (contour ! index_1, contour ! index_2))
                       else (min_distance, closest))
           in if index_1 + 1 \<ge> length contour div 2 then Inr best
              else closest_loop ar contour (fst best) (snd best) (index_1 + 1) (index_2 + 1)
      else Inl IndexError)"
  by pat_completeness auto
termination
  by (relation "measure (\<lambda>(ar, contour, min_distance, closest, index_1, index_2). length contour div 2 - index_1)") auto

declare closest_loop.simps [simp del]

text \<open>
  \<open>closest_points\<close>: the unpacking is inside \<open>try \<dots> except TypeError\<close>, which
  replaces the result by zeros when the loop left \<open>closest_points\<close> at \<open>None\<close>.
\<close>

definition closest_points ::
  "arith \<Rightarrow> polygon \<Rightarrow> nat \<Rightarrow> (main_window, pyfloat \<times> pyfloat list \<times> pyfloat list) prog" where
  "closest_points ar poly frame =
     bnd (lift (closest_loop ar (exterior_coords poly) PInf None 0 (length (exterior_coords poly) div 2)))
       (\<lambda>(min_distance, closest).
     bnd (gets resolution) (\<lambda>res.
       let (shortest, closest_point_x, closest_point_y) =
             (case closest of
                Some (point1, point2) \<Rightarrow>
                  (f_mul ar min_distance res, [fst point1, fst point2], [snd point1, snd point2])
              | None \<Rightarrow> (Fin 0, [Fin 0, Fin 0], [Fin 0, Fin 0]))
       in bnd (store shortest_distance shortest_distance_update frame shortest) (\<lambda>_.
          bnd (store nearest_x nearest_x_update frame closest_point_x) (\<lambda>_.
          bnd (store nearest_y nearest_y_update frame closest_point_y) (\<lambda>_.
          ret (shortest, closest_point_x, closest_point_y))))))"

subsection \<open>Polygon metrics and centroid vector\<close>

text \<open>
  What the rest of the report takes from outside its module and the Python core:
  \<^item> \<open>floats\<close> are the two float operations above, and \<open>f_sub\<close>, \<open>f_add\<close> are
    \<open>a - b\<close> and \<open>a + b\<close>, \<open>f_div\<close> is the quotient \<open>a / b\<close> for a divisor that is
    not zero, and \<open>f_pow\<close> is \<open>a ** n\<close> for a float \<open>a\<close> and a natural number \<open>n\<close>,
    which raises OverflowError when the result is out of range;
  \<^item> \<open>spline_fit\<close> is the curve fit of SciPy that the spline class calls;
  \<^item> \<open>polygon_of\<close> is Shapely's \<open>Polygon(\<dots>)\<close> on the list of dense-contour points;
  \<^item> \<open>np_norm\<close> is \<open>np.linalg.norm\<close> of a vector of two floats;
  \<^item> \<open>np_angle unit_vector vector\<close> is the angle in degrees that NumPy computes from
    the two vectors: \<open>np.degrees(np.arctan2(np.linalg.det([unit_vector, vector]),
    np.dot(unit_vector, vector)))\<close>;
  \<^item> \<open>was_canceled\<close> is the answer of \<open>progress.wasCanceled()\<close> after
    \<open>progress.setValue(frame)\<close>.
\<close>

record env =
  floats :: arith
  f_sub :: "pyfloat \<Rightarrow> pyfloat \<Rightarrow> pyfloat"
  f_add :: "pyfloat \<Rightarrow> pyfloat \<Rightarrow> pyfloat"
  f_div :: "pyfloat \<Rightarrow> pyfloat \<Rightarrow> pyfloat"
  f_pow :: "pyfloat \<Rightarrow> nat \<Rightarrow> pyerror + pyfloat"
  spline_fit :: "knots \<Rightarrow> pyerror + knots"
  polygon_of :: "point list \<Rightarrow> pyerror + polygon"
  np_norm :: "point \<Rightarrow> pyfloat"
  np_angle :: "point \<Rightarrow> point \<Rightarrow> pyfloat"
  was_canceled :: "nat \<Rightarrow> bool"

text \<open>\<open>a / b\<close> on floats raises ZeroDivisionError when the divisor is zero.\<close>

definition fdiv :: "env \<Rightarrow> pyfloat \<Rightarrow> pyfloat \<Rightarrow> pyerror + pyfloat" where
  "fdiv ev a b = (if b = Fin 0 then Inl ZeroDivisionError else Inr (f_div ev a b))"

text \<open>
  \<open>compute_polygon_metrics\<close>: the area is scaled by \<open>resolution ** 2\<close>, the length by
  the resolution; the four results are written to the containers and returned.
\<close>

definition compute_polygon_metrics ::
  "env \<Rightarrow> polygon \<Rightarrow> nat \<Rightarrow> (main_window, pyfloat \<times> pyfloat \<times> pyfloat \<times> pyfloat) prog" where
  "compute_polygon_metrics ev poly frame =
     bnd (gets resolution) (\<lambda>res.
     bnd (lift (f_pow ev res 2)) (\<lambda>res_squared.
       let area_mm = f_mul (floats ev) (area poly) res_squared;
           circumf = f_mul (floats ev) (length_p poly) res;
           cx = fst (centroid poly);
           cy = snd (centroid poly)
       in bnd (store lumen_area lumen_area_update frame area_mm) (\<lambda>_.
          bnd (store lumen_circumf lumen_circumf_update frame circumf) (\<lambda>_.
          bnd (store centroid_x centroid_x_update frame (Some cx)) (\<lambda>_.
          bnd (store centroid_y centroid_y_update frame (Some cy)) (\<lambda>_.
          ret (area_mm, circumf, cx, cy)))))))"

text \<open>
  \<open>centroid_center_vector\<close>: the vector from the image centre
  \<open>(shape[1] / 2, shape[2] / 2)\<close> to the centroid, its length times the resolution,
  and its angle to the unit vector \<open>(0, 1)\<close>, to which 360 is added when it is negative.
  The two halves are quotients of integers; they are taken as the float quotients of the
  same values.
\<close>

definition centroid_center_vector ::
  "env \<Rightarrow> nat \<times> nat \<times> nat \<Rightarrow> pyfloat \<Rightarrow> pyfloat \<Rightarrow> pyfloat \<Rightarrow> pyfloat \<times> pyfloat" where
  "centroid_center_vector ev shape res cx cy =
     (let center_x = f_div ev (Fin (real (fst (snd shape)))) (Fin 2);
          center_y = f_div ev (Fin (real (snd (snd shape)))) (Fin 2);
          vector = (f_sub ev cx center_x, f_sub ev cy center_y);
          vector_len = f_mul (floats ev) (np_norm ev vector) res;
          angle = np_angle ev (Fin 0, Fin 1) vector
      in (vector_len, if flt angle (Fin 0) then f_add ev angle (Fin 360) else angle))"

subsection \<open>The metrics pass of \<open>compute_all\<close>\<close>

text \<open>
  The state of a pass: the window, the local lists \<open>elliptic_ratio\<close>,
  \<open>vector_length\<close> and \<open>vector_angle\<close>, the dense contours \<open>lumen_x\<close> and
  \<open>lumen_y\<close>, and the values given to \<open>progress.setValue\<close> so far. When the three
  keys are in \<open>data\<close> the local lists are the lists of \<open>data\<close> themselves
  (\<open>aliased\<close>), and a write to one is a write to \<open>data\<close>; otherwise they are fresh
  lists of zeros.
\<close>

record pass =
  window :: main_window
  aliased :: bool
  loc_elliptic_ratio :: "pyfloat list"
  loc_vector_length :: "pyfloat list"
  loc_vector_angle :: "pyfloat list"
  lumen_x :: "pyfloat list list"
  lumen_y :: "pyfloat list list"
  progress :: "nat list"

definition in_window :: "(main_window, 'a) prog \<Rightarrow> (pass, 'a) prog" where
  "in_window m = (\<lambda>s. case m (window s) of (r, w) \<Rightarrow> (r, s\<lparr>window := w\<rparr>))"

text \<open>A write to one of the three local lists and, when aliased, to the list of \<open>data\<close>.\<close>

definition store_local ::
  "(pass \<Rightarrow> pyfloat list) \<Rightarrow> ((pyfloat list \<Rightarrow> pyfloat list) \<Rightarrow> pass \<Rightarrow> pass) \<Rightarrow>
   ((pyfloat list option \<Rightarrow> pyfloat list option) \<Rightarrow> data \<Rightarrow> data) \<Rightarrow> nat \<Rightarrow> pyfloat \<Rightarrow> (pass, unit) prog" where
  "store_local field field_update key_update frame v =
     (\<lambda>s. case write_at (field s) frame v of
        Inl e \<Rightarrow> (Inl e, s)
      | Inr xs \<Rightarrow>
          (Inr (),
           (field_update (\<lambda>_. xs) s)\<lparr>window :=
              (if aliased s
               then (window s)\<lparr>data := key_update (\<lambda>_. Some xs) (data (window s))\<rparr>
               else window s)\<rparr>))"

text \<open>A write to \<open>lumen_x[frame]\<close> or \<open>lumen_y[frame]\<close>.\<close>

definition store_dense ::
  "(pass \<Rightarrow> pyfloat list list) \<Rightarrow> ((pyfloat list list \<Rightarrow> pyfloat list list) \<Rightarrow> pass \<Rightarrow> pass) \<Rightarrow>
   nat \<Rightarrow> pyfloat list \<Rightarrow> (pass, unit) prog" where
  "store_dense field field_update frame v =
     (\<lambda>s. case write_at (field s) frame v of
        Inl e \<Rightarrow> (Inl e, s)
      | Inr xs \<Rightarrow> (Inr (), field_update (\<lambda>_. xs) s))"

text \<open>
  The locals at the start of \<open>compute_all\<close>: a KeyError on any of the three keys
  replaces all three lists by zeros.
\<close>

definition init_pass :: "main_window \<Rightarrow> pass" where
  "init_pass mw =
     (case (elliptic_ratio (data mw), vector_length (data mw), vector_angle (data mw)) of
        (Some er, Some vl, Some va) \<Rightarrow>
          \<lparr>window = mw, aliased = True, loc_elliptic_ratio = er, loc_vector_length = vl,
           loc_vector_angle = va, lumen_x = replicate (num_frames mw) [],
           lumen_y = replicate (num_frames mw) [], progress = []\<rparr>
      | _ \<Rightarrow>
          \<lparr>window = mw, aliased = False,
           loc_elliptic_ratio = replicate (num_frames mw) (Fin 0),
           loc_vector_length = replicate (num_frames mw) (Fin 0),
           loc_vector_angle = replicate (num_frames mw) (Fin 0),
           lumen_x = replicate (num_frames mw) [],
           lumen_y = replicate (num_frames mw) [], progress = []\<rparr>)"

text \<open>
  The test at the head of the loop body:
  \<open>lumen_area[frame] and elliptic_ratio[frame] != 0\<close>.
\<close>

definition already_computed :: "nat \<Rightarrow> (pass, bool) prog" where
  "already_computed frame =
     bnd (fetch (\<lambda>s. lumen_area (data (window s))) frame) (\<lambda>a.
       if nonzero a
       then bnd (fetch loc_elliptic_ratio frame) (\<lambda>e. ret (nonzero e))
       else ret False)"

text \<open>
  The first part of the loop body. The dense contour of the frame comes from the call
  \<open>Spline([\<dots>], n_points=\<dots>)\<close>, with the knot lists of the frame read first; the value
  given for the keyword plays no part in the binding of the arguments. Then follow the
  polygon and the three metric functions, each followed by the assignment of its results
  to the containers (the same lists the function wrote to).
\<close>

definition compute_metrics :: "env \<Rightarrow> nat \<Rightarrow> (pass, unit) prog" where
  "compute_metrics ev frame =
     bnd (fetch (\<lambda>s. fst (lumen (data (window s)))) frame) (\<lambda>knots_x.
     bnd (fetch (\<lambda>s. snd (lumen (data (window s)))) frame) (\<lambda>knots_y.
     bnd (lift (Spline_keyword (spline_fit ev) (knots_x, knots_y) ''n_points'')) (\<lambda>lumen_contour.
     case full_contour lumen_contour of
       Curve xs ys \<Rightarrow>
         bnd (store_dense lumen_x lumen_x_update frame xs) (\<lambda>_.
         bnd (store_dense lumen_y lumen_y_update frame ys) (\<lambda>_.
         bnd (lift (polygon_of ev (zip xs ys))) (\<lambda>poly.
         bnd (in_window (compute_polygon_metrics ev poly frame)) (\<lambda>(a, c, cx, cy).
         bnd (in_window (store lumen_area lumen_area_update frame a)) (\<lambda>_.
         bnd (in_window (store lumen_circumf lumen_circumf_update frame c)) (\<lambda>_.
         bnd (in_window (store centroid_x centroid_x_update frame (Some cx))) (\<lambda>_.
         bnd (in_window (store centroid_y centroid_y_update frame (Some cy))) (\<lambda>_.
         bnd (in_window (farthest_points (floats ev) (exterior_coords poly) frame)) (\<lambda>(ld, fx, fy).
         bnd (in_window (store longest_distance longest_distance_update frame ld)) (\<lambda>_.
         bnd (in_window (store farthest_x farthest_x_update frame fx)) (\<lambda>_.
         bnd (in_window (store farthest_y farthest_y_update frame fy)) (\<lambda>_.
         bnd (in_window (closest_points (floats ev) poly frame)) (\<lambda>(sd, nx, ny).
         bnd (in_window (store shortest_distance shortest_distance_update frame sd)) (\<lambda>_.
         bnd (in_window (store nearest_x nearest_x_update frame nx)) (\<lambda>_.
         in_window (store nearest_y nearest_y_update frame ny))))))))))))))))
     | _ \<Rightarrow> raise TypeError)))"

text \<open>
  \<open>if shortest_distance[frame] != 0:
      elliptic_ratio[frame] = longest_distance[frame] / shortest_distance[frame]\<close>
\<close>

definition compute_elliptic_ratio :: "env \<Rightarrow> nat \<Rightarrow> (pass, unit) prog" where
  "compute_elliptic_ratio ev frame =
     bnd (fetch (\<lambda>s. shortest_distance (data (window s))) frame) (\<lambda>sd.
       if nonzero sd
       then bnd (fetch (\<lambda>s. longest_distance (data (window s))) frame) (\<lambda>ld.
            bnd (fetch (\<lambda>s. shortest_distance (data (window s))) frame) (\<lambda>sd'.
            bnd (lift (fdiv ev ld sd')) (\<lambda>ratio.
            store_local loc_elliptic_ratio loc_elliptic_ratio_update elliptic_ratio_update frame ratio)))
       else ret ())"

text \<open>
  The centroid vector of the frame; subtracting from a centroid entry that still holds
  the empty placeholder raises TypeError.
\<close>

definition compute_vector :: "env \<Rightarrow> nat \<Rightarrow> (pass, unit) prog" where
  "compute_vector ev frame =
     bnd (fetch (\<lambda>s. centroid_x (data (window s))) frame) (\<lambda>cx.
     bnd (fetch (\<lambda>s. centroid_y (data (window s))) frame) (\<lambda>cy.
     bnd (gets (\<lambda>s. (images_shape (window s), resolution (window s)))) (\<lambda>(shape, res).
       case (cx, cy) of
         (Some x, Some y) \<Rightarrow>
           (let (vl, va) = centroid_center_vector ev shape res x y
            in bnd (store_local loc_vector_length loc_vector_length_update vector_length_update frame vl) (\<lambda>_.
               store_local loc_vector_angle loc_vector_angle_update vector_angle_update frame va))
       | _ \<Rightarrow> raise TypeError)))"

text \<open>
  The end of the loop body: \<open>progress.setValue(frame)\<close> and the cancellation test,
  unless messages are suppressed. The result says whether the pass was canceled.
\<close>

definition report_progress :: "env \<Rightarrow> bool \<Rightarrow> nat \<Rightarrow> (pass, bool) prog" where
  "report_progress ev suppress_messages frame =
     (if suppress_messages then ret False
      else (\<lambda>s. (Inr (was_canceled ev frame), s\<lparr>progress := progress s @ [frame]\<rparr>)))"

definition compute_frame :: "env \<Rightarrow> bool \<Rightarrow> nat \<Rightarrow> (pass, bool) prog" where
  "compute_frame ev suppress_messages frame =
     bnd (compute_metrics ev frame) (\<lambda>_.
     bnd (compute_elliptic_ratio ev frame) (\<lambda>_.
     bnd (compute_vector ev frame) (\<lambda>_.
     report_progress ev suppress_messages frame)))"

text \<open>
  The loop over \<open>contoured_frames\<close>. The result is \<open>True\<close> when the loop ran through
  and \<open>False\<close> when the pass was canceled (\<open>compute_all\<close> returns \<open>None\<close>).
\<close>

fun compute_all_loop :: "env \<Rightarrow> bool \<Rightarrow> nat list \<Rightarrow> (pass, bool) prog" where
  "compute_all_loop ev suppress_messages [] = ret True"
| "compute_all_loop ev suppress_messages (frame # frames) =
     bnd (already_computed frame) (\<lambda>skip.
       if skip then compute_all_loop ev suppress_messages frames
       else bnd (compute_frame ev suppress_messages frame) (\<lambda>canceled.
              if canceled then ret False
              else compute_all_loop ev suppress_messages frames))"

text \<open>
  \<open>compute_all\<close> up to the point where the three lists are put back into \<open>data\<close>,
  which happens only when the loop ran through. The report table built before that (its
  reads of the metadata and of the phases are taken not to raise) and the csv files and
  plots written after it are output only and are left out.
\<close>

definition compute_all :: "env \<Rightarrow> main_window \<Rightarrow> nat list \<Rightarrow> bool \<Rightarrow> (pyerror + bool) \<times> pass" where
  "compute_all ev mw contoured_frames suppress_messages =
     (case compute_all_loop ev suppress_messages contoured_frames (init_pass mw) of
        (Inr True, s) \<Rightarrow>
          (Inr True,
           s\<lparr>window := (window s)\<lparr>data := (data (window s))
               \<lparr>elliptic_ratio := Some (loc_elliptic_ratio s),
                vector_length := Some (loc_vector_length s),
                vector_angle := Some (loc_vector_angle s)\<rparr>\<rparr>\<rparr>)
      | (r, s) \<Rightarrow> (r, s))"

text \<open>A program never raises a given exception.\<close>

definition never_raises :: "pyerror \<Rightarrow> ('s, 'a) prog \<Rightarrow> bool" where
  "never_raises e m = (\<forall>s. fst (m s) \<noteq> Inl e)"

section \<open>Example inputs\<close>

text \<open>
  The containers as \<open>read_contours\<close> initialises them for data that comes without
  metrics: zeros and empty placeholders for \<open>n\<close> frames, and none of the three later
  keys.
\<close>

definition blank_data :: "nat \<Rightarrow> pyfloat list list \<times> pyfloat list list \<Rightarrow> data" where
  "blank_data n knots =
     \<lparr>lumen = knots, lumen_area = replicate n (Fin 0), lumen_circumf = replicate n (Fin 0),
      centroid_x = replicate n None, centroid_y = replicate n None,
      longest_distance = replicate n (Fin 0), farthest_x = replicate n [], farthest_y = replicate n [],
      shortest_distance = replicate n (Fin 0), nearest_x = replicate n [], nearest_y = replicate n [],
      elliptic_ratio = None, vector_length = None, vector_angle = None\<rparr>"

text \<open>
  A window of one frame with four knot points, the corners of a square, no metrics yet,
  and a resolution of 2.
\<close>

definition example_window :: main_window where
  "example_window =
     \<lparr>data = blank_data 1 ([[Fin 0, Fin 10, Fin 10, Fin 0]], [[Fin 0, Fin 0, Fin 10, Fin 10]]),
      num_frames = 1, resolution = Fin 2, images_shape = (1, 16, 10)\<rparr>"

text \<open>
  The same frame as an older version of the program saved it: the area, the centroid and
  the two distances of the frame are stored, and the three later keys are missing.
\<close>

definition example_window_older :: main_window where
  "example_window_older =
     example_window\<lparr>data := (data example_window)
       \<lparr>lumen_area := [Fin 400], lumen_circumf := [Fin 80],
        centroid_x := [Some (Fin 5)], centroid_y := [Some (Fin 5)],
        longest_distance := [Fin 30], farthest_x := [[Fin 0, Fin 10]], farthest_y := [[Fin 0, Fin 10]],
        shortest_distance := [Fin 20], nearest_x := [[Fin 0, Fin 10]], nearest_y := [[Fin 5, Fin 5]]\<rparr>\<rparr>"

text \<open>
  A window of two frames that both have knot points: frame 0 has stored metrics, frame 1
  has none yet. The three later keys are present.
\<close>

definition example_window_two :: main_window where
  "example_window_two =
     \<lparr>data = (blank_data 2 ([[Fin 0, Fin 10, Fin 10, Fin 0], [Fin 0, Fin 10, Fin 10, Fin 0]],
                             [[Fin 0, Fin 0, Fin 10, Fin 10], [Fin 0, Fin 0, Fin 10, Fin 10]]))
        \<lparr>lumen_area := [Fin 400, Fin 0], lumen_circumf := [Fin 80, Fin 0],
         centroid_x := [Some (Fin 5), None], centroid_y := [Some (Fin 5), None],
         longest_distance := [Fin 30, Fin 0], farthest_x := [[Fin 0, Fin 10], []],
         farthest_y := [[Fin 0, Fin 10], []],
         shortest_distance := [Fin 20, Fin 0], nearest_x := [[Fin 0, Fin 10], []],
         nearest_y := [[Fin 5, Fin 5], []],
         elliptic_ratio := Some [Fin (3 / 2), Fin 0],
         vector_length := Some [Fin 6, Fin 0],
         vector_angle := Some [Fin 90, Fin 0]\<rparr>,
      num_frames = 2, resolution = Fin 2, images_shape = (2, 16, 10)\<rparr>"

text \<open>
  An arithmetic for the examples: the distance and the product are the exact ones. The
  machine operations return the same values wherever the operands are finite and the
  exact result is a float, and the examples use the arithmetic only there: the
  coordinates, distances and products in them are small integers. (On operands that
  are not finite the stand-in gives NaN; no example has such operands.)
\<close>

definition exact_dist :: "point \<Rightarrow> point \<Rightarrow> pyfloat" where
  "exact_dist p q =
     (case (p, q) of
        ((Fin a, Fin b), (Fin c, Fin d)) \<Rightarrow> Fin (sqrt ((a - c) * (a - c) + (b - d) * (b - d)))
      | _ \<Rightarrow> NaN)"

definition exact_mul :: "pyfloat \<Rightarrow> pyfloat \<Rightarrow> pyfloat" where
  "exact_mul a b = (case (a, b) of (Fin x, Fin y) \<Rightarrow> Fin (x * y) | _ \<Rightarrow> NaN)"

definition example_arith :: arith where
  "example_arith = \<lparr>math_dist = exact_dist, f_mul = exact_mul\<rparr>"

text \<open>
  The exterior ring of a triangle with sides 4, 3 and 5, and of a polygon with six
  corners. A ring ends with its first point. For the polygon the area, the length and
  the centroid are given as well, although the searches do not read them.
\<close>

definition example_triangle :: "point list" where
  "example_triangle = [(Fin 0, Fin 0), (Fin 4, Fin 0), (Fin 4, Fin 3), (Fin 0, Fin 0)]"

definition example_polygon :: polygon where
  "example_polygon =
     \<lparr>exterior_coords = [(Fin 0, Fin 0), (Fin 3, Fin 0), (Fin 6, Fin 0), (Fin 6, Fin 8),
                         (Fin 3, Fin 4), (Fin 0, Fin 8), (Fin 0, Fin 0)],
      area = Fin 36, length_p = Fin 32, centroid = (Fin 3, Fin (28 / 9))\<rparr>"

text \<open>
  A stand-in for \<open>find_contours\<close>: three boundaries, the first in a corner of the
  frame, the other two around the point \<open>(2, 2)\<close>.
\<close>

definition example_find_contours :: "mask \<Rightarrow> point list list" where
  "example_find_contours img =
     [[(Fin 0, Fin 0), (Fin 0, Fin 1), (Fin 1, Fin 1), (Fin 1, Fin 0), (Fin 0, Fin 1), (Fin 0, Fin 0)],
      [(Fin 1, Fin 1), (Fin 1, Fin 3), (Fin 3, Fin 2)],
      [(Fin 1, Fin 1), (Fin 1, Fin 3), (Fin 3, Fin 3), (Fin 3, Fin 1), (Fin 1, Fin 1)]]"

text \<open>
  A stand-in for \<open>contains_point\<close>: the point lies strictly inside the bounding box
  of the path.
\<close>

definition example_contains_point :: "point list \<Rightarrow> nat \<times> nat \<Rightarrow> bool" where
  "example_contains_point path c =
     ((\<exists>p \<in> set path. flt (fst p) (Fin (real (fst c)))) \<and>
      (\<exists>p \<in> set path. flt (Fin (real (fst c))) (fst p)) \<and>
      (\<exists>p \<in> set path. flt (snd p) (Fin (real (snd c)))) \<and>
      (\<exists>p \<in> set path. flt (Fin (real (snd c))) (snd p)))"

text \<open>
  A stand-in for the curve fit on the knots used below. The periodic fit first replaces
  the last knot by the first. It needs more than three knots and raises TypeError with
  fewer; it rejects with ValueError a sequence in which two consecutive knots coincide.
  The stand-in gives back the knots in place of the 500 points of the curve.
\<close>

fun consecutive_duplicate :: "point list \<Rightarrow> bool" where
  "consecutive_duplicate (p # q # ps) = (p = q \<or> consecutive_duplicate (q # ps))"
| "consecutive_duplicate ps = False"

definition example_fit :: "knots \<Rightarrow> pyerror + knots" where
  "example_fit pts =
     (let ps = zip (fst pts) (snd pts)
      in if length ps \<le> 3 then Inl TypeError
         else if consecutive_duplicate (butlast ps @ [hd ps]) then Inl ValueError
         else Inr pts)"

section \<open>Properties of downsampling\<close>

lemma sample_in_range:
  "\<forall>i\<in>set is. i < length xs \<Longrightarrow> sample xs is = Inr (map ((!) xs) is)"
  by (induction "is") (simp_all add: read_at_def)

lemma stride_index_in_range:
  assumes "0 < s" "k < (n + s - 1) div s"
  shows "k * s < (n::nat)"
proof -
  from assms(2) have "Suc k \<le> (n + s - 1) div s" by simp
  then have "Suc k * s \<le> n + s - 1"
    using assms(1) by (simp add: less_eq_div_iff_mult_less_eq)
  then show ?thesis using assms(1) by simp
qed

lemma stride_count_aux:
  assumes "0 < (q::nat)"
  shows "(k * q + r + q - 1) div q = k + (r + q - 1) div q"
proof -
  obtain m where m: "r + q - 1 = m" by simp
  then have "k * q + r + q - 1 = m + k * q" using assms by linarith
  moreover have "(m + k * q) div q = m div q + k" using assms by simp
  ultimately show ?thesis using m by simp
qed

lemma stride_count:
  assumes "0 < k" "k \<le> (n::nat)"
  shows "(n + n div k - 1) div (n div k) = k + (n mod k + n div k - 1) div (n div k)"
proof -
  have q: "0 < n div k" using assms by (simp add: div_greater_zero_iff)
  have "k * (n div k) + n mod k = n" by simp
  then show ?thesis using stride_count_aux[OF q, of k "n mod k"] by simp
qed

lemma stride_count_exact:
  assumes "0 < k" "k \<le> (n::nat)"
  shows "(n + n div k - 1) div (n div k) = k \<longleftrightarrow> k dvd n"
proof -
  have q: "0 < n div k" using assms by (simp add: div_greater_zero_iff)
  have "(n mod k + n div k - 1) div (n div k) = 0 \<longleftrightarrow> n mod k = 0"
    using q by (auto simp: div_eq_0_iff)
  then show ?thesis using stride_count[OF assms] by (auto simp: dvd_eq_mod_eq_0)
qed

text \<open>
  What \<open>downsample\<close> gives for one frame of at least \<open>num_points\<close> points: the points
  at the multiples of the stride, \<open>\<lceil>len / stride\<rceil>\<close> of them.
\<close>

lemma downsample_frame_long:
  assumes "0 < num_points" "num_points \<le> length xs" "length xs \<le> length ys"
  shows "downsample_frame xs (Inr ys) num_points =
           Inr (map ((!) xs) (map (\<lambda>k. k * (length xs div num_points))
                    [0..<(length xs + length xs div num_points - 1) div (length xs div num_points)]),
                map ((!) ys) (map (\<lambda>k. k * (length xs div num_points))
                    [0..<(length xs + length xs div num_points - 1) div (length xs div num_points)]))"
proof -
  let ?s = "length xs div num_points"
  let ?is = "map (\<lambda>k. k * ?s) [0..<(length xs + ?s - 1) div ?s]"
  have s: "0 < ?s" using assms by (simp add: div_greater_zero_iff)
  have ne: "xs \<noteq> []" using assms by auto
  have inx: "\<forall>i\<in>set ?is. i < length xs"
    using stride_index_in_range[OF s] by auto
  then have iny: "\<forall>i\<in>set ?is. i < length ys" using assms(3) by auto
  show ?thesis
    using s ne assms(1) sample_in_range[OF inx] sample_in_range[OF iny]
    by (simp add: downsample_frame_def py_range_def)
qed

text \<open>The number of points kept is \<open>num_points\<close> plus a remainder term, which vanishes
  exactly when \<open>num_points\<close> divides the length.\<close>

lemma downsample_frame_count:
  assumes "0 < num_points" "num_points \<le> length xs" "length xs \<le> length ys"
  shows "\<exists>dx dy. downsample_frame xs (Inr ys) num_points = Inr (dx, dy) \<and>
           length dx = num_points + (length xs mod num_points + length xs div num_points - 1)
                                      div (length xs div num_points) \<and>
           length dy = length dx \<and>
           (length dx = num_points \<longleftrightarrow> num_points dvd length xs)"
  using downsample_frame_long[OF assms] stride_count[OF assms(1,2)] stride_count_exact[OF assms(1,2)]
  by simp

text \<open>A frame with fewer points than \<open>num_points\<close> has stride zero, and \<open>range\<close> raises.\<close>

lemma downsample_frame_short:
  assumes "xs \<noteq> []" "length xs < num_points"
  shows "downsample_frame xs ys num_points = Inl ValueError"
  using assms by (simp add: downsample_frame_def py_range_def)

text \<open>
  C3 (the output has at most \<open>K = 20\<close> points, and exactly \<open>K\<close> when the input has at
  least \<open>K\<close>): the code does otherwise. With 21 points the stride is \<open>21 // 20 = 1\<close>,
  so every index is sampled and all 21 points come back.
\<close>

theorem downsample_exceeds_num_points:
  "downsample ([map (\<lambda>k. Fin (real k)) [0..<21]], [map (\<lambda>k. Fin (real k)) [0..<21]]) default_num_points
     = Inr ([map (\<lambda>k. Fin (real k)) [0..<21]], [map (\<lambda>k. Fin (real k)) [0..<21]])
   \<and> length (map (\<lambda>k. Fin (real k)) [0..<21]) = 21 \<and> default_num_points = 20"
  by (simp add: downsample_def default_num_points_def downsample_frame_def py_range_def read_at_def
        upt_rec)

text \<open>
  C4 (a contour with fewer than \<open>K = 20\<close> points is returned unchanged, without an
  error): the code does otherwise. With 3 points the stride is \<open>3 // 20 = 0\<close>, and
  \<open>range(0, 3, 0)\<close> raises ValueError.
\<close>

theorem downsample_short_raises:
  "downsample ([[Fin 1, Fin 2, Fin 3]], [[Fin 4, Fin 5, Fin 6]]) default_num_points = Inl ValueError"
  by (simp add: downsample_def default_num_points_def downsample_frame_def py_range_def read_at_def)

section \<open>Properties of the distance searches\<close>

lemma flt_irrefl: "\<not> flt a a"
  by (cases a) simp_all

lemma flt_trans: "flt a b \<Longrightarrow> flt b c \<Longrightarrow> flt a c"
  by (cases a; cases b; cases c) simp_all

lemma flt_asym: "flt a b \<Longrightarrow> \<not> flt b a"
  using flt_trans flt_irrefl by blast

text \<open>
  What the loop of \<open>farthest_points\<close> leaves: either no pair has a distance above the
  starting value and nothing changes, or the result is the distance of the pair at some
  position \<open>k\<close>, no pair has a greater distance, and no pair before \<open>k\<close> has the same.
\<close>

lemma farthest_loop_scan:
  "(farthest_loop ar m0 fp ps = (m0, fp) \<and>
      (\<forall>pq \<in> set ps. \<not> fgt (case_prod (math_dist ar) pq) m0))
   \<or> (\<exists>k < length ps.
        farthest_loop ar m0 fp ps = (case_prod (math_dist ar) (ps ! k), Some (ps ! k)) \<and>
        fgt (case_prod (math_dist ar) (ps ! k)) m0 \<and>
        (\<forall>k' < length ps. \<not> fgt (case_prod (math_dist ar) (ps ! k')) (case_prod (math_dist ar) (ps ! k))) \<and>
        (\<forall>k' < k. case_prod (math_dist ar) (ps ! k') \<noteq> case_prod (math_dist ar) (ps ! k)))"
proof (induction ps arbitrary: m0 fp)
  case Nil
  then show ?case by simp
next
  case (Cons pq ps)
  let ?D = "case_prod (math_dist ar)"
  obtain p q where pq: "pq = (p, q)" by (cases pq)
  show ?case
  proof (cases "fgt (?D pq) m0")
    case True
    then have step: "farthest_loop ar m0 fp (pq # ps) = farthest_loop ar (?D pq) (Some pq) ps"
      using pq by simp
    from Cons.IH[of "?D pq" "Some pq"] show ?thesis
    proof (elim disjE conjE exE)
      assume a: "\<forall>pq' \<in> set ps. \<not> fgt (?D pq') (?D pq)"
        and b: "farthest_loop ar (?D pq) (Some pq) ps = (?D pq, Some pq)"
      have "0 < length (pq # ps)" by simp
      moreover have "farthest_loop ar m0 fp (pq # ps) = (?D ((pq # ps) ! 0), Some ((pq # ps) ! 0))"
        using step b by simp
      moreover have "fgt (?D ((pq # ps) ! 0)) m0" using True by simp
      moreover have "\<forall>k' < length (pq # ps). \<not> fgt (?D ((pq # ps) ! k')) (?D ((pq # ps) ! 0))"
      proof (intro allI impI)
        fix k' assume "k' < length (pq # ps)"
        then show "\<not> fgt (?D ((pq # ps) ! k')) (?D ((pq # ps) ! 0))"
          using a flt_irrefl[of "?D pq"] by (cases k') (auto simp: fgt_def)
      qed
      moreover have "\<forall>k' < (0::nat). ?D ((pq # ps) ! k') \<noteq> ?D ((pq # ps) ! 0)" by simp
      ultimately show ?thesis by blast
    next
      fix k assume k: "k < length ps"
        and b: "farthest_loop ar (?D pq) (Some pq) ps = (?D (ps ! k), Some (ps ! k))"
        and c: "fgt (?D (ps ! k)) (?D pq)"
        and d: "\<forall>k' < length ps. \<not> fgt (?D (ps ! k')) (?D (ps ! k))"
        and e: "\<forall>k' < k. ?D (ps ! k') \<noteq> ?D (ps ! k)"
      have "Suc k < length (pq # ps)" using k by simp
      moreover have "farthest_loop ar m0 fp (pq # ps) =
          (?D ((pq # ps) ! Suc k), Some ((pq # ps) ! Suc k))"
        using step b by simp
      moreover have "fgt (?D ((pq # ps) ! Suc k)) m0"
        using c True flt_trans[of m0 "?D pq" "?D (ps ! k)"] by (simp add: fgt_def)
      moreover have "\<forall>k' < length (pq # ps). \<not> fgt (?D ((pq # ps) ! k')) (?D ((pq # ps) ! Suc k))"
      proof (intro allI impI)
        fix k' assume "k' < length (pq # ps)"
        then show "\<not> fgt (?D ((pq # ps) ! k')) (?D ((pq # ps) ! Suc k))"
          using d c flt_asym[of "?D pq" "?D (ps ! k)"] by (cases k') (auto simp: fgt_def)
      qed
      moreover have "\<forall>k' < Suc k. ?D ((pq # ps) ! k') \<noteq> ?D ((pq # ps) ! Suc k)"
      proof (intro allI impI)
        fix k' assume "k' < Suc k"
        then show "?D ((pq # ps) ! k') \<noteq> ?D ((pq # ps) ! Suc k)"
          using e c flt_irrefl[of "?D pq"] by (cases k') (auto simp: fgt_def)
      qed
      ultimately show ?thesis by blast
    qed
  next
    case False
    then have step: "farthest_loop ar m0 fp (pq # ps) = farthest_loop ar m0 fp ps"
      using pq by simp
    from Cons.IH[of m0 fp] show ?thesis
    proof (elim disjE conjE exE)
      assume a: "\<forall>pq' \<in> set ps. \<not> fgt (?D pq') m0"
        and b: "farthest_loop ar m0 fp ps = (m0, fp)"
      have "\<forall>pq' \<in> set (pq # ps). \<not> fgt (?D pq') m0" using a False by simp
      then show ?thesis using step b by simp
    next
      fix k assume k: "k < length ps"
        and b: "farthest_loop ar m0 fp ps = (?D (ps ! k), Some (ps ! k))"
        and c: "fgt (?D (ps ! k)) m0"
        and d: "\<forall>k' < length ps. \<not> fgt (?D (ps ! k')) (?D (ps ! k))"
        and e: "\<forall>k' < k. ?D (ps ! k') \<noteq> ?D (ps ! k)"
      have "Suc k < length (pq # ps)" using k by simp
      moreover have "farthest_loop ar m0 fp (pq # ps) =
          (?D ((pq # ps) ! Suc k), Some ((pq # ps) ! Suc k))"
        using step b by simp
      moreover have "fgt (?D ((pq # ps) ! Suc k)) m0" using c by simp
      moreover have "\<forall>k' < length (pq # ps). \<not> fgt (?D ((pq # ps) ! k')) (?D ((pq # ps) ! Suc k))"
      proof (intro allI impI)
        fix k' assume "k' < length (pq # ps)"
        then show "\<not> fgt (?D ((pq # ps) ! k')) (?D ((pq # ps) ! Suc k))"
          using d c False flt_trans[of m0 "?D (ps ! k)" "?D pq"] by (cases k') (auto simp: fgt_def)
      qed
      moreover have "\<forall>k' < Suc k. ?D ((pq # ps) ! k') \<noteq> ?D ((pq # ps) ! Suc k)"
      proof (intro allI impI)
        fix k' assume "k' < Suc k"
        then show "?D ((pq # ps) ! k') \<noteq> ?D ((pq # ps) ! Suc k)"
          using e c False by (cases k') auto
      qed
      ultimately show ?thesis by blast
    qed
  qed
qed

lemma combinations2_nth:
  "k < length (combinations2 xs) \<Longrightarrow>
   \<exists>i j. i < j \<and> j < length xs \<and> combinations2 xs ! k = (xs ! i, xs ! j) \<and>
     (\<forall>i' j'. i' < j' \<and> j' < length xs \<and> (i' < i \<or> (i' = i \<and> j' < j)) \<longrightarrow>
        (\<exists>k' < k. combinations2 xs ! k' = (xs ! i', xs ! j')))"
proof (induction xs arbitrary: k)
  case Nil
  then show ?case by simp
next
  case (Cons x xs)
  show ?case
  proof (cases "k < length xs")
    case True
    have "combinations2 (x # xs) ! k = ((x # xs) ! 0, (x # xs) ! Suc k)"
      using True by (simp add: nth_append)
    moreover have "\<forall>i' j'. i' < j' \<and> j' < length (x # xs) \<and> (i' < 0 \<or> (i' = 0 \<and> j' < Suc k)) \<longrightarrow>
        (\<exists>k' < k. combinations2 (x # xs) ! k' = ((x # xs) ! i', (x # xs) ! j'))"
    proof (intro allI impI)
      fix i' j'
      assume a: "i' < j' \<and> j' < length (x # xs) \<and> (i' < 0 \<or> (i' = 0 \<and> j' < Suc k))"
      then obtain j0 where j0: "j' = Suc j0" "i' = 0" "j0 < k" by (cases j') auto
      then have "combinations2 (x # xs) ! j0 = ((x # xs) ! i', (x # xs) ! j')"
        using True by (simp add: nth_append)
      then show "\<exists>k' < k. combinations2 (x # xs) ! k' = ((x # xs) ! i', (x # xs) ! j')"
        using j0 by blast
    qed
    ultimately show ?thesis using True by (intro exI[of _ 0] exI[of _ "Suc k"]) simp
  next
    case False
    define k2 where "k2 = k - length xs"
    have k: "k = length xs + k2" using False by (simp add: k2_def)
    have k2: "k2 < length (combinations2 xs)" using Cons.prems k by simp
    from Cons.IH[OF k2] obtain i j where ij: "i < j" "j < length xs"
      "combinations2 xs ! k2 = (xs ! i, xs ! j)"
      and before: "\<forall>i' j'. i' < j' \<and> j' < length xs \<and> (i' < i \<or> (i' = i \<and> j' < j)) \<longrightarrow>
        (\<exists>k' < k2. combinations2 xs ! k' = (xs ! i', xs ! j'))"
      by blast
    have here: "combinations2 (x # xs) ! k = ((x # xs) ! Suc i, (x # xs) ! Suc j)"
      using ij k by (simp add: nth_append)
    have "\<forall>i' j'. i' < j' \<and> j' < length (x # xs) \<and> (i' < Suc i \<or> (i' = Suc i \<and> j' < Suc j)) \<longrightarrow>
        (\<exists>k' < k. combinations2 (x # xs) ! k' = ((x # xs) ! i', (x # xs) ! j'))"
    proof (intro allI impI)
      fix i' j'
      assume a: "i' < j' \<and> j' < length (x # xs) \<and> (i' < Suc i \<or> (i' = Suc i \<and> j' < Suc j))"
      then obtain j0 where j0: "j' = Suc j0" "j0 < length xs" by (cases j') auto
      show "\<exists>k' < k. combinations2 (x # xs) ! k' = ((x # xs) ! i', (x # xs) ! j')"
      proof (cases i')
        case 0
        have "combinations2 (x # xs) ! j0 = ((x # xs) ! i', (x # xs) ! j')"
          using 0 j0 by (simp add: nth_append)
        moreover have "j0 < k" using j0 k k2 ij by simp
        ultimately show ?thesis by blast
      next
        case (Suc i0)
        then have "i0 < j0 \<and> j0 < length xs \<and> (i0 < i \<or> (i0 = i \<and> j0 < j))"
          using a j0 by auto
        with before obtain k' where k': "k' < k2" "combinations2 xs ! k' = (xs ! i0, xs ! j0)"
          by blast
        have "combinations2 (x # xs) ! (length xs + k') = ((x # xs) ! i', (x # xs) ! j')"
          using k' Suc j0 by (simp add: nth_append)
        moreover have "length xs + k' < k" using k' k by simp
        ultimately show ?thesis by blast
      qed
    qed
    with here ij show ?thesis by (intro exI[of _ "Suc i"] exI[of _ "Suc j"]) simp
  qed
qed

lemma combinations2_mem:
  "i < j \<Longrightarrow> j < length xs \<Longrightarrow> (xs ! i, xs ! j) \<in> set (combinations2 xs)"
proof (induction xs arbitrary: i j)
  case Nil
  then show ?case by simp
next
  case (Cons x xs)
  obtain j0 where j0: "j = Suc j0" using Cons.prems by (cases j) auto
  show ?case
  proof (cases i)
    case 0
    then show ?thesis using j0 Cons.prems by simp
  next
    case (Suc i0)
    then have "(xs ! i0, xs ! j0) \<in> set (combinations2 xs)"
      using Cons.IH[of i0 j0] Cons.prems j0 by simp
    then show ?thesis using Suc j0 by simp
  qed
qed
lemma farthest_loop_Some: "snd (farthest_loop ar m (Some x) ps) \<noteq> None"
  by (induction ps arbitrary: m x) (auto simp: Let_def)

lemma farthest_loop_None_iff:
  "snd (farthest_loop ar m fp ps) = None \<longleftrightarrow>
     fp = None \<and> (\<forall>pq \<in> set ps. \<not> fgt (case_prod (math_dist ar) pq) m)"
proof (induction ps arbitrary: m fp)
  case Nil
  then show ?case by simp
next
  case (Cons pq ps)
  obtain p q where pq: "pq = (p, q)" by (cases pq)
  show ?case
  proof (cases "fgt (math_dist ar p q) m")
    case True
    then show ?thesis using pq farthest_loop_Some[of ar "math_dist ar p q" "(p, q)" ps] by (auto simp: Let_def)
  next
    case False
    then show ?thesis using pq Cons.IH[of m fp] by (simp add: Let_def)
  qed
qed

lemma farthest_loop_member:
  "farthest_loop ar m fp ps = (m', Some pq) \<Longrightarrow> fp = Some pq \<or> pq \<in> set ps"
proof (induction ps arbitrary: m fp)
  case Nil
  then show ?case by simp
next
  case (Cons a ps)
  obtain p q where a: "a = (p, q)" by (cases a)
  show ?case
  proof (cases "fgt (math_dist ar p q) m")
    case True
    then have "farthest_loop ar (math_dist ar p q) (Some (p, q)) ps = (m', Some pq)"
      using Cons.prems a by (simp add: Let_def)
    from Cons.IH[OF this] show ?thesis using a by auto
  next
    case False
    then have "farthest_loop ar m fp ps = (m', Some pq)"
      using Cons.prems a by (simp add: Let_def)
    from Cons.IH[OF this] show ?thesis by auto
  qed
qed

lemma combinations2_set:
  "pq \<in> set (combinations2 xs) \<Longrightarrow> \<exists>i j. i < j \<and> j < length xs \<and> pq = (xs ! i, xs ! j)"
proof -
  assume "pq \<in> set (combinations2 xs)"
  then obtain k where "k < length (combinations2 xs)" "combinations2 xs ! k = pq"
    by (auto simp: in_set_conv_nth)
  then show ?thesis using combinations2_nth[of k xs] by auto
qed

lemma farthest_points_None:
  assumes "snd (farthest_loop ar (Fin 0) None (combinations2 coords)) = None"
  shows "farthest_points ar coords frame mw = (Inl TypeError, mw)"
proof -
  obtain m where "farthest_loop ar (Fin 0) None (combinations2 coords) = (m, None)"
    using assms by (cases "farthest_loop ar (Fin 0) None (combinations2 coords)") auto
  then show ?thesis by (simp add: farthest_points_def bnd_def gets_def raise_def)
qed

lemma farthest_points_Some:
  assumes "farthest_loop ar (Fin 0) None (combinations2 coords) = (m, Some (p1, p2))"
    and "frame < length (longest_distance (data mw))"
    and "frame < length (farthest_x (data mw))"
    and "frame < length (farthest_y (data mw))"
  shows "farthest_points ar coords frame mw =
    (Inr (f_mul ar m (resolution mw), [fst p1, fst p2], [snd p1, snd p2]),
     mw\<lparr>data := (data mw)
       \<lparr>longest_distance := (longest_distance (data mw))[frame := f_mul ar m (resolution mw)],
        farthest_x := (farthest_x (data mw))[frame := [fst p1, fst p2]],
        farthest_y := (farthest_y (data mw))[frame := [snd p1, snd p2]]\<rparr>\<rparr>)"
  using assms
  by (simp add: farthest_points_def bnd_def gets_def ret_def store_def write_at_def)

text \<open>
  C5: when some pair of ring points has a distance above zero, \<open>farthest_points\<close>
  returns the distance of a pair \<open>i < j\<close> that no pair of the ring exceeds, times the
  resolution, together with that pair; and the pair is the first in the order of
  \<open>combinations\<close> (smaller \<open>i\<close> first, then smaller \<open>j\<close>) with that distance: no pair
  before it has the same distance. The distances are the values \<open>math.dist\<close> returns
  and the product is the float product. The three containers get the same values at
  \<open>frame\<close>.
\<close>

theorem farthest_points_maximum:
  assumes pos: "i0 < j0" "j0 < length coords"
      "fgt (math_dist ar (coords ! i0) (coords ! j0)) (Fin 0)"
    and fr: "frame < length (longest_distance (data mw))"
      "frame < length (farthest_x (data mw))" "frame < length (farthest_y (data mw))"
  shows "\<exists>i j. i < j \<and> j < length coords \<and>
      fgt (math_dist ar (coords ! i) (coords ! j)) (Fin 0) \<and>
      (\<forall>i' j'. i' < j' \<and> j' < length coords \<longrightarrow>
         \<not> fgt (math_dist ar (coords ! i') (coords ! j')) (math_dist ar (coords ! i) (coords ! j))) \<and>
      (\<forall>i' j'. i' < j' \<and> j' < length coords \<and> (i' < i \<or> (i' = i \<and> j' < j)) \<longrightarrow>
         math_dist ar (coords ! i') (coords ! j') \<noteq> math_dist ar (coords ! i) (coords ! j)) \<and>
      farthest_points ar coords frame mw =
        (Inr (f_mul ar (math_dist ar (coords ! i) (coords ! j)) (resolution mw),
              [fst (coords ! i), fst (coords ! j)], [snd (coords ! i), snd (coords ! j)]),
         mw\<lparr>data := (data mw)
           \<lparr>longest_distance := (longest_distance (data mw))
              [frame := f_mul ar (math_dist ar (coords ! i) (coords ! j)) (resolution mw)],
            farthest_x := (farthest_x (data mw))[frame := [fst (coords ! i), fst (coords ! j)]],
            farthest_y := (farthest_y (data mw))[frame := [snd (coords ! i), snd (coords ! j)]]\<rparr>\<rparr>)"
proof -
  let ?ps = "combinations2 coords"
  let ?D = "case_prod (math_dist ar)"
  have mem0: "(coords ! i0, coords ! j0) \<in> set ?ps" using pos combinations2_mem by blast
  have "fgt (?D (coords ! i0, coords ! j0)) (Fin 0)" using pos(3) by simp
  with mem0 have "\<not> (\<forall>pq \<in> set ?ps. \<not> fgt (?D pq) (Fin 0))" by blast
  with farthest_loop_scan[of ar "Fin 0" None ?ps]
  obtain k where k: "k < length ?ps"
    and res: "farthest_loop ar (Fin 0) None ?ps = (?D (?ps ! k), Some (?ps ! k))"
    and above: "fgt (?D (?ps ! k)) (Fin 0)"
    and mx: "\<forall>k' < length ?ps. \<not> fgt (?D (?ps ! k')) (?D (?ps ! k))"
    and first: "\<forall>k' < k. ?D (?ps ! k') \<noteq> ?D (?ps ! k)"
    by blast
  from combinations2_nth[OF k] obtain i j where ij: "i < j" "j < length coords"
    "?ps ! k = (coords ! i, coords ! j)"
    and before: "\<forall>i' j'. i' < j' \<and> j' < length coords \<and> (i' < i \<or> (i' = i \<and> j' < j)) \<longrightarrow>
        (\<exists>k' < k. ?ps ! k' = (coords ! i', coords ! j'))"
    by blast
  have dk: "?D (?ps ! k) = math_dist ar (coords ! i) (coords ! j)" using ij(3) by simp
  have maxi: "\<forall>i' j'. i' < j' \<and> j' < length coords \<longrightarrow>
         \<not> fgt (math_dist ar (coords ! i') (coords ! j')) (math_dist ar (coords ! i) (coords ! j))"
  proof (intro allI impI)
    fix i' j' assume a: "i' < j' \<and> j' < length coords"
    then have "(coords ! i', coords ! j') \<in> set ?ps" using combinations2_mem by blast
    then obtain k' where k': "k' < length ?ps" "?ps ! k' = (coords ! i', coords ! j')"
      by (auto simp: in_set_conv_nth)
    have "\<not> fgt (?D (?ps ! k')) (?D (?ps ! k))" using mx k'(1) by blast
    then show "\<not> fgt (math_dist ar (coords ! i') (coords ! j')) (math_dist ar (coords ! i) (coords ! j))"
      using k'(2) dk by simp
  qed
  have firsti: "\<forall>i' j'. i' < j' \<and> j' < length coords \<and> (i' < i \<or> (i' = i \<and> j' < j)) \<longrightarrow>
         math_dist ar (coords ! i') (coords ! j') \<noteq> math_dist ar (coords ! i) (coords ! j)"
  proof (intro allI impI)
    fix i' j' assume a: "i' < j' \<and> j' < length coords \<and> (i' < i \<or> (i' = i \<and> j' < j))"
    with before obtain k' where k': "k' < k" "?ps ! k' = (coords ! i', coords ! j')" by blast
    have "?D (?ps ! k') \<noteq> ?D (?ps ! k)" using first k'(1) by blast
    then show "math_dist ar (coords ! i') (coords ! j') \<noteq> math_dist ar (coords ! i) (coords ! j)"
      using k'(2) dk by simp
  qed
  have "farthest_loop ar (Fin 0) None ?ps =
      (math_dist ar (coords ! i) (coords ! j), Some (coords ! i, coords ! j))"
    using res dk ij(3) by simp
  from farthest_points_Some[OF this fr] ij(1,2) above dk maxi firsti show ?thesis by auto
qed

text \<open>
  C10: \<open>farthest_points\<close> returns a pair of ring points when some pair of points has a
  distance above zero (and the containers have a slot for the frame). When no pair has,
  in particular when all points of the ring are the same point (whose distance to itself
  is not above zero), the variable \<open>farthest_points\<close> is still \<open>None\<close> after the loop
  and the function raises TypeError, leaving the window as it was; nothing catches it.
\<close>

theorem farthest_points_requires_positive_distance:
  "((\<exists>i j. i < j \<and> j < length coords \<and> fgt (math_dist ar (coords ! i) (coords ! j)) (Fin 0)) \<and>
      frame < length (longest_distance (data mw)) \<and>
      frame < length (farthest_x (data mw)) \<and> frame < length (farthest_y (data mw))
     \<longrightarrow> (\<exists>i j d. i < j \<and> j < length coords \<and>
            fst (farthest_points ar coords frame mw) =
              Inr (d, [fst (coords ! i), fst (coords ! j)], [snd (coords ! i), snd (coords ! j)])))
   \<and> ((\<forall>i j. i < j \<and> j < length coords \<longrightarrow> \<not> fgt (math_dist ar (coords ! i) (coords ! j)) (Fin 0))
     \<longrightarrow> farthest_points ar coords frame mw = (Inl TypeError, mw))
   \<and> ((\<forall>p \<in> set coords. \<not> fgt (math_dist ar p p) (Fin 0)) \<and>
      (\<forall>p \<in> set coords. \<forall>q \<in> set coords. p = q)
     \<longrightarrow> farthest_points ar coords frame mw = (Inl TypeError, mw))"
proof (intro conjI impI)
  let ?ps = "combinations2 coords"
  assume a: "(\<exists>i j. i < j \<and> j < length coords \<and> fgt (math_dist ar (coords ! i) (coords ! j)) (Fin 0)) \<and>
      frame < length (longest_distance (data mw)) \<and>
      frame < length (farthest_x (data mw)) \<and> frame < length (farthest_y (data mw))"
  then obtain i j where ij: "i < j" "j < length coords"
    "fgt (math_dist ar (coords ! i) (coords ! j)) (Fin 0)" by blast
  then have "(coords ! i, coords ! j) \<in> set ?ps" using combinations2_mem by blast
  with ij(3) have "\<exists>pq \<in> set ?ps. fgt (case_prod (math_dist ar) pq) (Fin 0)"
    by (intro bexI[of _ "(coords ! i, coords ! j)"]) simp_all
  then have "snd (farthest_loop ar (Fin 0) None ?ps) \<noteq> None"
    by (simp add: farthest_loop_None_iff)
  then obtain m pq where res: "farthest_loop ar (Fin 0) None ?ps = (m, Some pq)"
    by (cases "farthest_loop ar (Fin 0) None ?ps") auto
  then have "pq \<in> set ?ps" using farthest_loop_member by blast
  then obtain i' j' where ij': "i' < j'" "j' < length coords" "pq = (coords ! i', coords ! j')"
    using combinations2_set by blast
  have "farthest_loop ar (Fin 0) None ?ps = (m, Some (coords ! i', coords ! j'))"
    using res ij'(3) by simp
  from farthest_points_Some[OF this] a ij'(1,2)
  show "\<exists>i j d. i < j \<and> j < length coords \<and>
            fst (farthest_points ar coords frame mw) =
              Inr (d, [fst (coords ! i), fst (coords ! j)], [snd (coords ! i), snd (coords ! j)])"
    by (intro exI[of _ i'] exI[of _ j'] exI[of _ "f_mul ar m (resolution mw)"]) simp
next
  assume a: "\<forall>i j. i < j \<and> j < length coords \<longrightarrow> \<not> fgt (math_dist ar (coords ! i) (coords ! j)) (Fin 0)"
  have "\<forall>pq \<in> set (combinations2 coords). \<not> fgt (case_prod (math_dist ar) pq) (Fin 0)"
  proof
    fix pq assume "pq \<in> set (combinations2 coords)"
    then obtain i j where "i < j" "j < length coords" "pq = (coords ! i, coords ! j)"
      using combinations2_set by blast
    then show "\<not> fgt (case_prod (math_dist ar) pq) (Fin 0)" using a by simp
  qed
  then have "snd (farthest_loop ar (Fin 0) None (combinations2 coords)) = None"
    by (simp add: farthest_loop_None_iff)
  then show "farthest_points ar coords frame mw = (Inl TypeError, mw)"
    by (rule farthest_points_None)
next
  assume a: "(\<forall>p \<in> set coords. \<not> fgt (math_dist ar p p) (Fin 0)) \<and>
      (\<forall>p \<in> set coords. \<forall>q \<in> set coords. p = q)"
  have "\<forall>pq \<in> set (combinations2 coords). \<not> fgt (case_prod (math_dist ar) pq) (Fin 0)"
  proof
    fix pq assume "pq \<in> set (combinations2 coords)"
    then obtain i j where ij: "i < j" "j < length coords" "pq = (coords ! i, coords ! j)"
      using combinations2_set by blast
    then have "coords ! i = coords ! j" "coords ! i \<in> set coords"
      using a by auto
    then have "\<not> fgt (math_dist ar (coords ! i) (coords ! j)) (Fin 0)"
      using a by metis
    then show "\<not> fgt (case_prod (math_dist ar) pq) (Fin 0)" using ij(3) by simp
  qed
  then have "snd (farthest_loop ar (Fin 0) None (combinations2 coords)) = None"
    by (simp add: farthest_loop_None_iff)
  then show "farthest_points ar coords frame mw = (Inl TypeError, mw)"
    by (rule farthest_points_None)
qed


lemma closest_loop_unchanged:
  assumes "contour \<noteq> []"
    and "i < max 1 (length contour div 2)"
    and "\<forall>k. i \<le> k \<and> k < max 1 (length contour div 2) \<longrightarrow>
           \<not> flt (math_dist ar (contour ! k) (contour ! (k + length contour div 2))) md"
  shows "closest_loop ar contour md cl i (i + length contour div 2) = Inr (md, cl)"
  using assms
proof (induction "max 1 (length contour div 2) - i" arbitrary: i)
  case 0
  then have False by linarith
  then show ?case ..
next
  case (Suc n)
  let ?h = "length contour div 2"
  have inr: "i < length contour \<and> i + ?h < length contour"
  proof (cases "?h = 0")
    case True
    then show ?thesis using Suc.prems by (cases contour) auto
  next
    case False
    then have "i < ?h" using Suc.prems by simp
    then show ?thesis by linarith
  qed
  have nolt: "\<not> flt (math_dist ar (contour ! i) (contour ! (i + ?h))) md"
    using Suc.prems by simp
  show ?case
  proof (cases "i + 1 \<ge> ?h")
    case True
    then show ?thesis using inr nolt by (subst closest_loop.simps) (simp add: Let_def)
  next
    case False
    then have "Suc i < max 1 ?h" by simp
    moreover have "n = max 1 ?h - Suc i" using Suc.hyps(2) by simp
    moreover have "\<forall>k. Suc i \<le> k \<and> k < max 1 ?h \<longrightarrow>
           \<not> flt (math_dist ar (contour ! k) (contour ! (k + ?h))) md"
      using Suc.prems(3) by simp
    ultimately have "closest_loop ar contour md cl (Suc i) (Suc i + ?h) = Inr (md, cl)"
      using Suc.hyps(1)[of "Suc i"] Suc.prems(1) by blast
    then show ?thesis using inr nolt False by (subst closest_loop.simps) (simp add: Let_def)
  qed
qed

text \<open>
  What the loop of \<open>closest_points\<close> leaves when it starts at a pair \<open>i\<close> inside the
  first half of the ring: either no pair from \<open>i\<close> on has a distance below the starting
  value and nothing changes, or the result is the distance of the pair at some position
  \<open>k\<close>, no pair from \<open>i\<close> on has a smaller distance, and none between \<open>i\<close> and \<open>k\<close>
  has the same.
\<close>

lemma closest_loop_scan:
  assumes "i < length contour div 2"
  shows "(closest_loop ar contour md cl i (i + length contour div 2) = Inr (md, cl) \<and>
       (\<forall>k. i \<le> k \<and> k < length contour div 2 \<longrightarrow>
          \<not> flt (math_dist ar (contour ! k) (contour ! (k + length contour div 2))) md))
   \<or> (\<exists>k. i \<le> k \<and> k < length contour div 2 \<and>
        closest_loop ar contour md cl i (i + length contour div 2) =
          Inr (math_dist ar (contour ! k) (contour ! (k + length contour div 2)),
               Some (contour ! k, contour ! (k + length contour div 2))) \<and>
        flt (math_dist ar (contour ! k) (contour ! (k + length contour div 2))) md \<and>
        (\<forall>k'. i \<le> k' \<and> k' < length contour div 2 \<longrightarrow>
           \<not> flt (math_dist ar (contour ! k') (contour ! (k' + length contour div 2)))
                 (math_dist ar (contour ! k) (contour ! (k + length contour div 2)))) \<and>
        (\<forall>k'. i \<le> k' \<and> k' < k \<longrightarrow>
           math_dist ar (contour ! k') (contour ! (k' + length contour div 2)) \<noteq>
           math_dist ar (contour ! k) (contour ! (k + length contour div 2))))"
  using assms
proof (induction "length contour div 2 - i" arbitrary: i md cl)
  case 0
  then have False by linarith
  then show ?case ..
next
  case (Suc n)
  let ?h = "length contour div 2"
  let ?D = "\<lambda>k. math_dist ar (contour ! k) (contour ! (k + ?h))"
  let ?P = "\<lambda>k. Some (contour ! k, contour ! (k + ?h))"
  have inr: "i < length contour \<and> i + ?h < length contour"
    using Suc.prems by linarith
  define best where "best = (if flt (?D i) md then (?D i, ?P i) else (md, cl))"
  have step: "closest_loop ar contour md cl i (i + ?h) =
      (if i + 1 \<ge> ?h then Inr best
       else closest_loop ar contour (fst best) (snd best) (Suc i) (Suc i + ?h))"
    using inr by (subst closest_loop.simps) (simp add: Let_def best_def)
  have from_i: "\<And>Q. Q i \<Longrightarrow> (\<forall>k. Suc i \<le> k \<and> k < ?h \<longrightarrow> Q k) \<Longrightarrow> (\<forall>k. i \<le> k \<and> k < ?h \<longrightarrow> Q k)"
    by (metis Suc_leI le_neq_implies_less)
  show ?case
  proof (cases "i + 1 \<ge> ?h")
    case True
    then have last: "\<forall>k. Suc i \<le> k \<and> k < ?h \<longrightarrow> False" by auto
    show ?thesis
    proof (cases "flt (?D i) md")
      case lt: True
      have "closest_loop ar contour md cl i (i + ?h) = Inr (?D i, ?P i)"
        using step True lt by (simp add: best_def)
      moreover have "\<forall>k'. i \<le> k' \<and> k' < ?h \<longrightarrow> \<not> flt (?D k') (?D i)"
        using True flt_irrefl[of "?D i"] by (auto simp: le_less Suc_le_eq)
      moreover have "\<forall>k'. i \<le> k' \<and> k' < i \<longrightarrow> ?D k' \<noteq> ?D i" by auto
      moreover have "i \<le> i \<and> i < ?h" using Suc.prems by simp
      ultimately show ?thesis using lt by blast
    next
      case nlt: False
      have "closest_loop ar contour md cl i (i + ?h) = Inr (md, cl)"
        using step True nlt by (simp add: best_def)
      moreover have "\<forall>k. i \<le> k \<and> k < ?h \<longrightarrow> \<not> flt (?D k) md"
        using True nlt by (auto simp: le_less Suc_le_eq)
      ultimately show ?thesis by blast
    qed
  next
    case False
    then have a: "Suc i < ?h" by simp
    have b: "n = ?h - Suc i" using Suc.hyps(2) by simp
    have rec: "closest_loop ar contour md cl i (i + ?h) =
        closest_loop ar contour (fst best) (snd best) (Suc i) (Suc i + ?h)"
      using step False by simp
    show ?thesis
    proof (cases "flt (?D i) md")
      case lt: True
      then have bst: "fst best = ?D i" "snd best = ?P i" by (simp_all add: best_def)
      from Suc.hyps(1)[OF b a, of "?D i" "?P i"] show ?thesis
      proof (elim disjE conjE exE)
        assume r: "closest_loop ar contour (?D i) (?P i) (Suc i) (Suc i + ?h) = Inr (?D i, ?P i)"
          and m: "\<forall>k. Suc i \<le> k \<and> k < ?h \<longrightarrow> \<not> flt (?D k) (?D i)"
        have "closest_loop ar contour md cl i (i + ?h) = Inr (?D i, ?P i)"
          using rec bst r by simp
        moreover have "\<forall>k'. i \<le> k' \<and> k' < ?h \<longrightarrow> \<not> flt (?D k') (?D i)"
          using from_i[of "\<lambda>k. \<not> flt (?D k) (?D i)"] m flt_irrefl[of "?D i"] by blast
        moreover have "\<forall>k'. i \<le> k' \<and> k' < i \<longrightarrow> ?D k' \<noteq> ?D i" by auto
        moreover have "i \<le> i \<and> i < ?h" using Suc.prems by simp
        ultimately show ?thesis using lt by blast
      next
        fix k assume k: "Suc i \<le> k" "k < ?h"
          and r: "closest_loop ar contour (?D i) (?P i) (Suc i) (Suc i + ?h) = Inr (?D k, ?P k)"
          and c: "flt (?D k) (?D i)"
          and m: "\<forall>k'. Suc i \<le> k' \<and> k' < ?h \<longrightarrow> \<not> flt (?D k') (?D k)"
          and f: "\<forall>k'. Suc i \<le> k' \<and> k' < k \<longrightarrow> ?D k' \<noteq> ?D k"
        have "closest_loop ar contour md cl i (i + ?h) = Inr (?D k, ?P k)"
          using rec bst r by simp
        moreover have "flt (?D k) md" using c lt flt_trans by blast
        moreover have "\<forall>k'. i \<le> k' \<and> k' < ?h \<longrightarrow> \<not> flt (?D k') (?D k)"
          using from_i[of "\<lambda>k'. \<not> flt (?D k') (?D k)"] m flt_asym[OF c] by blast
        moreover have "\<forall>k'. i \<le> k' \<and> k' < k \<longrightarrow> ?D k' \<noteq> ?D k"
        proof (intro allI impI)
          fix k' assume "i \<le> k' \<and> k' < k"
          then have "k' = i \<or> (Suc i \<le> k' \<and> k' < k)" by auto
          then show "?D k' \<noteq> ?D k" using f c flt_irrefl[of "?D k"] by auto
        qed
        moreover have "i \<le> k \<and> k < ?h" using k by simp
        ultimately show ?thesis by blast
      qed
    next
      case nlt: False
      then have bst: "fst best = md" "snd best = cl" by (simp_all add: best_def)
      from Suc.hyps(1)[OF b a, of md cl] show ?thesis
      proof (elim disjE conjE exE)
        assume r: "closest_loop ar contour md cl (Suc i) (Suc i + ?h) = Inr (md, cl)"
          and m: "\<forall>k. Suc i \<le> k \<and> k < ?h \<longrightarrow> \<not> flt (?D k) md"
        have "closest_loop ar contour md cl i (i + ?h) = Inr (md, cl)"
          using rec bst r by simp
        moreover have "\<forall>k. i \<le> k \<and> k < ?h \<longrightarrow> \<not> flt (?D k) md"
          using from_i[of "\<lambda>k. \<not> flt (?D k) md"] m nlt by blast
        ultimately show ?thesis by blast
      next
        fix k assume k: "Suc i \<le> k" "k < ?h"
          and r: "closest_loop ar contour md cl (Suc i) (Suc i + ?h) = Inr (?D k, ?P k)"
          and c: "flt (?D k) md"
          and m: "\<forall>k'. Suc i \<le> k' \<and> k' < ?h \<longrightarrow> \<not> flt (?D k') (?D k)"
          and f: "\<forall>k'. Suc i \<le> k' \<and> k' < k \<longrightarrow> ?D k' \<noteq> ?D k"
        have "closest_loop ar contour md cl i (i + ?h) = Inr (?D k, ?P k)"
          using rec bst r by simp
        moreover have "\<not> flt (?D i) (?D k)" using c nlt flt_trans by blast
        then have "\<forall>k'. i \<le> k' \<and> k' < ?h \<longrightarrow> \<not> flt (?D k') (?D k)"
          using from_i[of "\<lambda>k'. \<not> flt (?D k') (?D k)"] m by blast
        moreover have "\<forall>k'. i \<le> k' \<and> k' < k \<longrightarrow> ?D k' \<noteq> ?D k"
        proof (intro allI impI)
          fix k' assume "i \<le> k' \<and> k' < k"
          then have "k' = i \<or> (Suc i \<le> k' \<and> k' < k)" by auto
          then show "?D k' \<noteq> ?D k" using f c nlt by auto
        qed
        moreover have "i \<le> k \<and> k < ?h" using k by simp
        ultimately show ?thesis using c by blast
      qed
    qed
  qed
qed

lemma closest_points_result:
  assumes "closest_loop ar (exterior_coords poly) PInf None 0 (length (exterior_coords poly) div 2) = Inr (md, cl)"
    and "frame < length (shortest_distance (data mw))"
    and "frame < length (nearest_x (data mw))"
    and "frame < length (nearest_y (data mw))"
  shows "closest_points ar poly frame mw =
    (case cl of
       Some (p1, p2) \<Rightarrow>
         (Inr (f_mul ar md (resolution mw), [fst p1, fst p2], [snd p1, snd p2]),
          mw\<lparr>data := (data mw)
            \<lparr>shortest_distance := (shortest_distance (data mw))[frame := f_mul ar md (resolution mw)],
             nearest_x := (nearest_x (data mw))[frame := [fst p1, fst p2]],
             nearest_y := (nearest_y (data mw))[frame := [snd p1, snd p2]]\<rparr>\<rparr>)
     | None \<Rightarrow>
         (Inr (Fin 0, [Fin 0, Fin 0], [Fin 0, Fin 0]),
          mw\<lparr>data := (data mw)
            \<lparr>shortest_distance := (shortest_distance (data mw))[frame := Fin 0],
             nearest_x := (nearest_x (data mw))[frame := [Fin 0, Fin 0]],
             nearest_y := (nearest_y (data mw))[frame := [Fin 0, Fin 0]]\<rparr>\<rparr>))"
  using assms
  by (simp add: closest_points_def bnd_def gets_def ret_def lift_def store_def write_at_def
      split: option.splits prod.splits)

text \<open>
  C1: when some pair of point \<open>k\<close> and point \<open>k + N div 2\<close> with \<open>k < N div 2\<close> has a
  distance below infinity (\<open>N\<close> the number of points of the exterior ring),
  \<open>closest_points\<close> returns the distance of such a pair that none of these
  \<open>N div 2\<close> pairs undercuts, times the resolution, together with that pair, which is
  the first of them with that distance; these pairs are the only ones that enter the
  result. The distances are the values \<open>math.dist\<close> returns and the product is the
  float product. The three containers get the same values at \<open>frame\<close>.
\<close>

theorem closest_points_antipodal_minimum:
  assumes some: "k0 < length (exterior_coords poly) div 2"
      "flt (math_dist ar (exterior_coords poly ! k0)
              (exterior_coords poly ! (k0 + length (exterior_coords poly) div 2))) PInf"
    and fr: "frame < length (shortest_distance (data mw))"
      "frame < length (nearest_x (data mw))" "frame < length (nearest_y (data mw))"
  shows "\<exists>k < length (exterior_coords poly) div 2.
      flt (math_dist ar (exterior_coords poly ! k)
             (exterior_coords poly ! (k + length (exterior_coords poly) div 2))) PInf \<and>
      (\<forall>k' < length (exterior_coords poly) div 2.
         \<not> flt (math_dist ar (exterior_coords poly ! k')
                   (exterior_coords poly ! (k' + length (exterior_coords poly) div 2)))
               (math_dist ar (exterior_coords poly ! k)
                   (exterior_coords poly ! (k + length (exterior_coords poly) div 2)))) \<and>
      (\<forall>k' < k.
         math_dist ar (exterior_coords poly ! k')
           (exterior_coords poly ! (k' + length (exterior_coords poly) div 2)) \<noteq>
         math_dist ar (exterior_coords poly ! k)
           (exterior_coords poly ! (k + length (exterior_coords poly) div 2))) \<and>
      closest_points ar poly frame mw =
        (Inr (f_mul ar (math_dist ar (exterior_coords poly ! k)
                          (exterior_coords poly ! (k + length (exterior_coords poly) div 2)))
                (resolution mw),
              [fst (exterior_coords poly ! k),
               fst (exterior_coords poly ! (k + length (exterior_coords poly) div 2))],
              [snd (exterior_coords poly ! k),
               snd (exterior_coords poly ! (k + length (exterior_coords poly) div 2))]),
         mw\<lparr>data := (data mw)
           \<lparr>shortest_distance := (shortest_distance (data mw))
              [frame := f_mul ar (math_dist ar (exterior_coords poly ! k)
                                    (exterior_coords poly ! (k + length (exterior_coords poly) div 2)))
                          (resolution mw)],
            nearest_x := (nearest_x (data mw))[frame :=
              [fst (exterior_coords poly ! k),
               fst (exterior_coords poly ! (k + length (exterior_coords poly) div 2))]],
            nearest_y := (nearest_y (data mw))[frame :=
              [snd (exterior_coords poly ! k),
               snd (exterior_coords poly ! (k + length (exterior_coords poly) div 2))]]\<rparr>\<rparr>)"
proof -
  let ?c = "exterior_coords poly"
  let ?h = "length ?c div 2"
  let ?D = "\<lambda>k. math_dist ar (?c ! k) (?c ! (k + ?h))"
  have h: "0 < ?h" using some(1) by simp
  have "\<not> (\<forall>k. 0 \<le> k \<and> k < ?h \<longrightarrow> \<not> flt (?D k) PInf)" using some by blast
  with closest_loop_scan[OF h, of ar PInf None]
  obtain k1 where k1: "k1 < ?h"
    and res: "closest_loop ar ?c PInf None 0 (0 + ?h) = Inr (?D k1, Some (?c ! k1, ?c ! (k1 + ?h)))"
    and below: "flt (?D k1) PInf"
    and mn: "\<forall>k'. 0 \<le> k' \<and> k' < ?h \<longrightarrow> \<not> flt (?D k') (?D k1)"
    and first: "\<forall>k'. 0 \<le> k' \<and> k' < k1 \<longrightarrow> ?D k' \<noteq> ?D k1"
    by blast
  have "closest_loop ar ?c PInf None 0 ?h = Inr (?D k1, Some (?c ! k1, ?c ! (k1 + ?h)))"
    using res by simp
  from closest_points_result[OF this fr] k1 below mn first show ?thesis
    by (intro exI[of _ k1]) simp
qed

text \<open>
  The handler of \<open>closest_points\<close> at work: on a ring that is not empty, when no
  candidate pair has a distance below infinity the search ends with
  \<open>closest_points = None\<close>, the TypeError of the unpacking is caught, and the result is
  the distance 0 with the points \<open>[0, 0]\<close>, \<open>[0, 0]\<close>.
\<close>

lemma closest_points_falls_back:
  assumes ne: "exterior_coords poly \<noteq> []"
    and nopair: "\<forall>k < max 1 (length (exterior_coords poly) div 2).
       \<not> flt (math_dist ar (exterior_coords poly ! k)
                 (exterior_coords poly ! (k + length (exterior_coords poly) div 2))) PInf"
    and fr: "frame < length (shortest_distance (data mw))"
      "frame < length (nearest_x (data mw))" "frame < length (nearest_y (data mw))"
  shows "closest_points ar poly frame mw =
    (Inr (Fin 0, [Fin 0, Fin 0], [Fin 0, Fin 0]),
     mw\<lparr>data := (data mw)
       \<lparr>shortest_distance := (shortest_distance (data mw))[frame := Fin 0],
        nearest_x := (nearest_x (data mw))[frame := [Fin 0, Fin 0]],
        nearest_y := (nearest_y (data mw))[frame := [Fin 0, Fin 0]]\<rparr>\<rparr>)"
proof -
  have "closest_loop ar (exterior_coords poly) PInf None 0 (0 + length (exterior_coords poly) div 2)
          = Inr (PInf, None)"
    using nopair by (intro closest_loop_unchanged[OF ne]) simp_all
  then have "closest_loop ar (exterior_coords poly) PInf None 0 (length (exterior_coords poly) div 2)
          = Inr (PInf, None)" by simp
  from closest_points_result[OF this fr] show ?thesis by simp
qed


lemma exact_dist_value:
  assumes "0 \<le> r" "(a - c) * (a - c) + (b - d) * (b - d) = r * r"
  shows "exact_dist (Fin a, Fin b) (Fin c, Fin d) = Fin r"
  using assms by (simp add: exact_dist_def)

lemma example_polygon_distances:
  "math_dist example_arith (Fin 0, Fin 0) (Fin 6, Fin 8) = Fin 10"
  "math_dist example_arith (Fin 3, Fin 0) (Fin 3, Fin 4) = Fin 4"
  "math_dist example_arith (Fin 6, Fin 0) (Fin 0, Fin 8) = Fin 10"
  by (simp_all add: example_arith_def exact_dist_value)

lemma example_triangle_distances:
  "math_dist example_arith (Fin 0, Fin 0) (Fin 4, Fin 0) = Fin 4"
  "math_dist example_arith (Fin 0, Fin 0) (Fin 4, Fin 3) = Fin 5"
  "math_dist example_arith (Fin 0, Fin 0) (Fin 0, Fin 0) = Fin 0"
  "math_dist example_arith (Fin 4, Fin 0) (Fin 4, Fin 3) = Fin 3"
  "math_dist example_arith (Fin 4, Fin 0) (Fin 0, Fin 0) = Fin 4"
  "math_dist example_arith (Fin 4, Fin 3) (Fin 0, Fin 0) = Fin 5"
  by (simp_all add: example_arith_def exact_dist_value)

theorem closest_points_antipodal_minimum_witness:
  "closest_points example_arith example_polygon 0 example_window =
     (Inr (Fin 8, [Fin 3, Fin 3], [Fin 0, Fin 4]),
      example_window\<lparr>data := (data example_window)
         \<lparr>shortest_distance := [Fin 8], nearest_x := [[Fin 3, Fin 3]], nearest_y := [[Fin 0, Fin 4]]\<rparr>\<rparr>)"
proof -
  let ?c = "exterior_coords example_polygon"
  let ?D = "\<lambda>k. math_dist example_arith (?c ! k) (?c ! (k + length ?c div 2))"
  have c: "?c = [(Fin 0, Fin 0), (Fin 3, Fin 0), (Fin 6, Fin 0), (Fin 6, Fin 8),
                 (Fin 3, Fin 4), (Fin 0, Fin 8), (Fin 0, Fin 0)]"
    by (simp add: example_polygon_def)
  have d: "?D 0 = Fin 10" "?D 1 = Fin 4" "?D 2 = Fin 10"
    by (simp_all add: c example_polygon_distances)
  have some: "1 < length ?c div 2" "flt (?D 1) PInf"
    by (simp_all add: c example_polygon_distances)
  have fr: "0 < length (shortest_distance (data example_window))"
    "0 < length (nearest_x (data example_window))" "0 < length (nearest_y (data example_window))"
    by (simp_all add: example_window_def blank_data_def)
  from closest_points_antipodal_minimum[OF some fr] obtain k where
    k: "k < length ?c div 2"
    and mn: "\<forall>k' < length ?c div 2. \<not> flt (?D k') (?D k)"
    and res: "closest_points example_arith example_polygon 0 example_window =
        (Inr (f_mul example_arith (?D k) (resolution example_window),
              [fst (?c ! k), fst (?c ! (k + length ?c div 2))],
              [snd (?c ! k), snd (?c ! (k + length ?c div 2))]),
         example_window\<lparr>data := (data example_window)
           \<lparr>shortest_distance := (shortest_distance (data example_window))
              [0 := f_mul example_arith (?D k) (resolution example_window)],
            nearest_x := (nearest_x (data example_window))[0 :=
              [fst (?c ! k), fst (?c ! (k + length ?c div 2))]],
            nearest_y := (nearest_y (data example_window))[0 :=
              [snd (?c ! k), snd (?c ! (k + length ?c div 2))]]\<rparr>\<rparr>)"
    by blast
  have "k = 0 \<or> k = 1 \<or> k = 2" using k by (auto simp: c)
  moreover have "\<not> flt (?D 1) (?D k)" using mn some(1) by blast
  ultimately have k1: "k = 1" using d by auto
  have "f_mul example_arith (?D 1) (resolution example_window) = Fin 8"
    using d(2) by (simp add: example_arith_def exact_mul_def example_window_def)
  then show ?thesis using res k1
    by (simp add: c example_window_def blank_data_def)
qed

theorem farthest_points_maximum_witness:
  "farthest_points example_arith example_triangle 0 example_window =
     (Inr (Fin 10, [Fin 0, Fin 4], [Fin 0, Fin 3]),
      example_window\<lparr>data := (data example_window)
         \<lparr>longest_distance := [Fin 10], farthest_x := [[Fin 0, Fin 4]], farthest_y := [[Fin 0, Fin 3]]\<rparr>\<rparr>)"
proof -
  let ?c = "example_triangle"
  let ?D = "\<lambda>i j. math_dist example_arith (?c ! i) (?c ! j)"
  have c: "?c = [(Fin 0, Fin 0), (Fin 4, Fin 0), (Fin 4, Fin 3), (Fin 0, Fin 0)]"
    by (simp add: example_triangle_def)
  have d: "?D 0 1 = Fin 4" "?D 0 2 = Fin 5" "?D 0 3 = Fin 0"
    "?D 1 2 = Fin 3" "?D 1 3 = Fin 4" "?D 2 3 = Fin 5"
    by (simp_all add: c example_triangle_distances)
  have pos: "(0::nat) < 1" "1 < length ?c" "fgt (?D 0 1) (Fin 0)"
    by (simp_all add: c example_triangle_distances fgt_def)
  have fr: "0 < length (longest_distance (data example_window))"
    "0 < length (farthest_x (data example_window))" "0 < length (farthest_y (data example_window))"
    by (simp_all add: example_window_def blank_data_def)
  from farthest_points_maximum[OF pos fr] obtain i j where
    ij: "i < j" "j < length ?c"
    and mx: "\<forall>i' j'. i' < j' \<and> j' < length ?c \<longrightarrow> \<not> fgt (?D i' j') (?D i j)"
    and first: "\<forall>i' j'. i' < j' \<and> j' < length ?c \<and> (i' < i \<or> (i' = i \<and> j' < j)) \<longrightarrow>
         ?D i' j' \<noteq> ?D i j"
    and res: "farthest_points example_arith ?c 0 example_window =
        (Inr (f_mul example_arith (?D i j) (resolution example_window),
              [fst (?c ! i), fst (?c ! j)], [snd (?c ! i), snd (?c ! j)]),
         example_window\<lparr>data := (data example_window)
           \<lparr>longest_distance := (longest_distance (data example_window))
              [0 := f_mul example_arith (?D i j) (resolution example_window)],
            farthest_x := (farthest_x (data example_window))[0 := [fst (?c ! i), fst (?c ! j)]],
            farthest_y := (farthest_y (data example_window))[0 := [snd (?c ! i), snd (?c ! j)]]\<rparr>\<rparr>)"
    by blast
  have "j < 4" using ij(2) by (simp add: c)
  then have cases: "(i = 0 \<and> j = 1) \<or> (i = 0 \<and> j = 2) \<or> (i = 0 \<and> j = 3) \<or>
      (i = 1 \<and> j = 2) \<or> (i = 1 \<and> j = 3) \<or> (i = 2 \<and> j = 3)"
    using ij(1) by auto
  have top: "\<not> fgt (?D 0 2) (?D i j)" using mx[rule_format, of 0 2] by (simp add: c)
  have "\<not> (i = 2 \<and> j = 3)"
  proof
    assume a: "i = 2 \<and> j = 3"
    then have "?D 0 2 \<noteq> ?D 2 3" using first[rule_format, of 0 2] by (simp add: c)
    then show False using d by simp
  qed
  with cases top have ij02: "i = 0 \<and> j = 2" using d by (auto simp: fgt_def)
  have "f_mul example_arith (?D 0 2) (resolution example_window) = Fin 10"
    using d(2) by (simp add: example_arith_def exact_mul_def example_window_def)
  then show ?thesis using res ij02
    by (simp add: c example_window_def blank_data_def)
qed

theorem farthest_points_requires_positive_distance_witness:
  "farthest_points example_arith [(Fin 1, Fin 1), (Fin 1, Fin 1), (Fin 1, Fin 1)] 0 example_window
     = (Inl TypeError, example_window)
   \<and> (\<exists>i j d. i < j \<and> j < 3 \<and>
        fst (farthest_points example_arith [(Fin 0, Fin 0), (Fin 1, Fin 0), (Fin 3, Fin 0)] 0 example_window) =
          Inr (d, [fst ([(Fin 0, Fin 0), (Fin 1, Fin 0), (Fin 3, Fin 0)] ! i),
                   fst ([(Fin 0, Fin 0), (Fin 1, Fin 0), (Fin 3, Fin 0)] ! j)],
                  [snd ([(Fin 0, Fin 0), (Fin 1, Fin 0), (Fin 3, Fin 0)] ! i),
                   snd ([(Fin 0, Fin 0), (Fin 1, Fin 0), (Fin 3, Fin 0)] ! j)]))"
proof
  have "math_dist example_arith (Fin 1, Fin 1) (Fin 1, Fin 1) = Fin 0"
    by (simp add: example_arith_def exact_dist_value)
  then have "(\<forall>p \<in> set [(Fin 1, Fin 1), (Fin 1, Fin 1), (Fin 1, Fin 1)].
           \<not> fgt (math_dist example_arith p p) (Fin 0)) \<and>
        (\<forall>p \<in> set [(Fin 1, Fin 1), (Fin 1, Fin 1), (Fin 1, Fin 1)].
           \<forall>q \<in> set [(Fin 1, Fin 1), (Fin 1, Fin 1), (Fin 1, Fin 1)]. p = q)"
    by (simp add: fgt_def)
  then show "farthest_points example_arith [(Fin 1, Fin 1), (Fin 1, Fin 1), (Fin 1, Fin 1)] 0 example_window
     = (Inl TypeError, example_window)"
    using farthest_points_requires_positive_distance
      [of "[(Fin 1, Fin 1), (Fin 1, Fin 1), (Fin 1, Fin 1)]" example_arith 0 example_window]
    by blast
next
  let ?c = "[(Fin 0, Fin 0), (Fin 1, Fin 0), (Fin 3, Fin 0)]"
  have "math_dist example_arith (Fin 0, Fin 0) (Fin 3, Fin 0) = Fin 3"
    by (simp add: example_arith_def exact_dist_value)
  then have "(0::nat) < 2 \<and> 2 < length ?c \<and> fgt (math_dist example_arith (?c ! 0) (?c ! 2)) (Fin 0)"
    by (simp add: fgt_def)
  then have "\<exists>i j. i < j \<and> j < length ?c \<and> fgt (math_dist example_arith (?c ! i) (?c ! j)) (Fin 0)" by blast
  moreover have "0 < length (longest_distance (data example_window)) \<and>
      0 < length (farthest_x (data example_window)) \<and> 0 < length (farthest_y (data example_window))"
    by (simp add: example_window_def blank_data_def)
  ultimately have "\<exists>i j d. i < j \<and> j < length ?c \<and>
            fst (farthest_points example_arith ?c 0 example_window) =
              Inr (d, [fst (?c ! i), fst (?c ! j)], [snd (?c ! i), snd (?c ! j)])"
    using farthest_points_requires_positive_distance[of ?c example_arith 0 example_window] by blast
  then show "\<exists>i j d. i < j \<and> j < 3 \<and>
        fst (farthest_points example_arith ?c 0 example_window) =
          Inr (d, [fst (?c ! i), fst (?c ! j)], [snd (?c ! i), snd (?c ! j)])"
    by (simp add: eval_nat_numeral)
qed

section \<open>Properties of contour extraction\<close>

lemma keep_largest_loop_result:
  "((\<forall>c \<in> set cs. keep_valid_contour cp c shape \<longrightarrow> length (fst c) \<le> ml) \<and>
      keep_largest_loop cp shape ml keep cs = keep)
   \<or> (\<exists>c \<in> set cs. keep_valid_contour cp c shape \<and> ml < length (fst c) \<and>
         keep_largest_loop cp shape ml keep cs = (snd c, fst c) \<and>
         (\<forall>c' \<in> set cs. keep_valid_contour cp c' shape \<longrightarrow> length (fst c') \<le> length (fst c)))"
proof (induction cs arbitrary: ml keep)
  case Nil
  then show ?case by simp
next
  case (Cons a cs)
  show ?case
  proof (cases "keep_valid_contour cp a shape \<and> ml < length (fst a)")
    case True
    then have step: "keep_largest_loop cp shape ml keep (a # cs) =
        keep_largest_loop cp shape (length (fst a)) (snd a, fst a) cs" by simp
    from Cons.IH[of "length (fst a)" "(snd a, fst a)"] show ?thesis
    proof (elim disjE conjE bexE)
      assume "\<forall>c \<in> set cs. keep_valid_contour cp c shape \<longrightarrow> length (fst c) \<le> length (fst a)"
        and "keep_largest_loop cp shape (length (fst a)) (snd a, fst a) cs = (snd a, fst a)"
      then show ?thesis using True step by auto
    next
      fix c assume "c \<in> set cs" "keep_valid_contour cp c shape" "length (fst a) < length (fst c)"
        "keep_largest_loop cp shape (length (fst a)) (snd a, fst a) cs = (snd c, fst c)"
        "\<forall>c' \<in> set cs. keep_valid_contour cp c' shape \<longrightarrow> length (fst c') \<le> length (fst c)"
      then show ?thesis using True step by (intro disjI2 bexI[of _ c]) auto
    qed
  next
    case False
    then have step: "keep_largest_loop cp shape ml keep (a # cs) =
        keep_largest_loop cp shape ml keep cs" by auto
    from Cons.IH[of ml keep] show ?thesis
    proof (elim disjE conjE bexE)
      assume "\<forall>c \<in> set cs. keep_valid_contour cp c shape \<longrightarrow> length (fst c) \<le> ml"
        and "keep_largest_loop cp shape ml keep cs = keep"
      then show ?thesis using False step by auto
    next
      fix c assume "c \<in> set cs" "keep_valid_contour cp c shape" "ml < length (fst c)"
        "keep_largest_loop cp shape ml keep cs = (snd c, fst c)"
        "\<forall>c' \<in> set cs. keep_valid_contour cp c' shape \<longrightarrow> length (fst c') \<le> length (fst c)"
      then show ?thesis using False step by (intro disjI2 bexI[of _ c]) auto
    qed
  qed
qed

lemma get_contours_nth:
  "frame < length preds \<Longrightarrow>
   (fst (get_contours fc cp preds shape) ! frame, snd (get_contours fc cp preds shape) ! frame) =
     get_contours_frame fc cp (preds ! frame) shape"
proof (induction preds arbitrary: frame)
  case Nil
  then show ?case by simp
next
  case (Cons img preds)
  then show ?case by (cases frame) (simp_all add: Let_def)
qed

lemma label_contours_lengths:
  "c \<in> set (label_contours fc img) \<Longrightarrow> length (snd c) = length (fst c)"
  by (auto simp: label_contours_def)

text \<open>
  C6: for every frame of the mask stack, what \<open>get_contours\<close> keeps is empty when no
  pixel is 1; otherwise it is taken among the traced boundaries whose path contains the
  point \<open>(H div 2, W div 2)\<close>: empty when there is none, and else one of them with the
  largest number of vertices (columns first, then rows).
\<close>

theorem get_contours_keeps_largest_valid:
  assumes "frame < length preds"
  shows "let kept = (fst (get_contours find_contours contains_point preds image_shape) ! frame,
                     snd (get_contours find_contours contains_point preds image_shape) ! frame);
             candidates = filter (\<lambda>c. contains_point (zip (fst c) (snd c))
                                     (fst image_shape div 2, snd image_shape div 2))
                            (label_contours find_contours (preds ! frame))
         in (\<not> any_foreground (preds ! frame) \<longrightarrow> kept = ([], [])) \<and>
            (any_foreground (preds ! frame) \<and> candidates = [] \<longrightarrow> kept = ([], [])) \<and>
            (any_foreground (preds ! frame) \<and> candidates \<noteq> [] \<longrightarrow>
               (\<exists>c \<in> set candidates. kept = (snd c, fst c) \<and>
                  (\<forall>c' \<in> set candidates. length (fst c') \<le> length (fst c))))"
proof -
  let ?cs = "label_contours find_contours (preds ! frame)"
  let ?cand = "filter (\<lambda>c. contains_point (zip (fst c) (snd c))
                 (fst image_shape div 2, snd image_shape div 2)) ?cs"
  let ?kept = "(fst (get_contours find_contours contains_point preds image_shape) ! frame,
                snd (get_contours find_contours contains_point preds image_shape) ! frame)"
  have kept: "?kept = get_contours_frame find_contours contains_point (preds ! frame) image_shape"
    by (rule get_contours_nth[OF assms])
  have cand: "set ?cand = {c \<in> set ?cs. keep_valid_contour contains_point c image_shape}"
    by (auto simp: keep_valid_contour_def)
  have a: "\<not> any_foreground (preds ! frame) \<longrightarrow> ?kept = ([], [])"
    using kept by (simp add: get_contours_frame_def)
  have fg: "any_foreground (preds ! frame) \<Longrightarrow>
      ?kept = keep_largest_loop contains_point image_shape 0 ([], []) ?cs"
    using kept by (simp add: get_contours_frame_def keep_largest_contour_def)
  have b: "any_foreground (preds ! frame) \<and> ?cand = [] \<longrightarrow> ?kept = ([], [])"
  proof
    assume h: "any_foreground (preds ! frame) \<and> ?cand = []"
    then have "\<forall>c \<in> set ?cs. \<not> keep_valid_contour contains_point c image_shape"
      using cand by (metis (no_types, lifting) empty_iff empty_set mem_Collect_eq)
    with keep_largest_loop_result[of ?cs contains_point image_shape 0 "([], [])"]
    have "keep_largest_loop contains_point image_shape 0 ([], []) ?cs = ([], [])" by blast
    then show "?kept = ([], [])" using fg h by simp
  qed
  have c: "any_foreground (preds ! frame) \<and> ?cand \<noteq> [] \<longrightarrow>
               (\<exists>c \<in> set ?cand. ?kept = (snd c, fst c) \<and>
                  (\<forall>c' \<in> set ?cand. length (fst c') \<le> length (fst c)))"
  proof
    assume h: "any_foreground (preds ! frame) \<and> ?cand \<noteq> []"
    then have k: "?kept = keep_largest_loop contains_point image_shape 0 ([], []) ?cs"
      using fg by simp
    from keep_largest_loop_result[of ?cs contains_point image_shape 0 "([], [])"]
    show "\<exists>c \<in> set ?cand. ?kept = (snd c, fst c) \<and>
                  (\<forall>c' \<in> set ?cand. length (fst c') \<le> length (fst c))"
    proof (elim disjE conjE bexE)
      assume all0: "\<forall>c \<in> set ?cs. keep_valid_contour contains_point c image_shape \<longrightarrow> length (fst c) \<le> 0"
        and r: "keep_largest_loop contains_point image_shape 0 ([], []) ?cs = ([], [])"
      from h obtain c where c: "c \<in> set ?cand" by (cases ?cand) auto
      then have cs: "c \<in> set ?cs" "keep_valid_contour contains_point c image_shape"
        using cand by auto
      then have "fst c = []" using all0 by auto
      moreover have "snd c = []" using label_contours_lengths[OF cs(1)] calculation by simp
      moreover have "\<forall>c' \<in> set ?cand. length (fst c') \<le> length (fst c)"
        using all0 cand by auto
      ultimately show ?thesis using c k r by (intro bexI[of _ c]) auto
    next
      fix c assume "c \<in> set ?cs" "keep_valid_contour contains_point c image_shape"
        "keep_largest_loop contains_point image_shape 0 ([], []) ?cs = (snd c, fst c)"
        "\<forall>c' \<in> set ?cs. keep_valid_contour contains_point c' image_shape \<longrightarrow> length (fst c') \<le> length (fst c)"
      then show ?thesis using k cand by (intro bexI[of _ c]) auto
    qed
  qed
  from a b c show ?thesis by (simp only: Let_def)
qed


theorem get_contours_keeps_largest_valid_witness:
  "(fst (get_contours example_find_contours example_contains_point
           [[[0, 0, 0, 0], [0, 1, 1, 0], [0, 1, 1, 0], [0, 0, 0, 0]]] (4, 4)) ! 0,
    snd (get_contours example_find_contours example_contains_point
           [[[0, 0, 0, 0], [0, 1, 1, 0], [0, 1, 1, 0], [0, 0, 0, 0]]] (4, 4)) ! 0)
   = ([Fin 1, Fin 3, Fin 3, Fin 1, Fin 1], [Fin 1, Fin 1, Fin 3, Fin 3, Fin 1])"
proof -
  let ?preds = "[[[0, 0, 0, 0], [0, 1, 1, 0], [0, 1, 1, 0], [0, 0, 0, 0]]] :: mask list"
  let ?kept = "(fst (get_contours example_find_contours example_contains_point ?preds (4, 4)) ! 0,
                snd (get_contours example_find_contours example_contains_point ?preds (4, 4)) ! 0)"
  let ?cand = "filter (\<lambda>c. example_contains_point (zip (fst c) (snd c)) (fst (4::nat, 4::nat) div 2, snd (4::nat, 4::nat) div 2))
                (label_contours example_find_contours (?preds ! 0))"
  have fr: "0 < length ?preds" by simp
  have fg: "any_foreground (?preds ! 0)" by (simp add: any_foreground_def)
  have cand: "?cand =
              [([Fin 1, Fin 1, Fin 3], [Fin 1, Fin 3, Fin 2]),
               ([Fin 1, Fin 1, Fin 3, Fin 3, Fin 1], [Fin 1, Fin 3, Fin 3, Fin 1, Fin 1])]"
    by (simp add: label_contours_def example_find_contours_def example_contains_point_def)
  then have ne: "?cand \<noteq> []" by simp
  have "(\<not> any_foreground (?preds ! 0) \<longrightarrow> ?kept = ([], [])) \<and>
        (any_foreground (?preds ! 0) \<and> ?cand = [] \<longrightarrow> ?kept = ([], [])) \<and>
        (any_foreground (?preds ! 0) \<and> ?cand \<noteq> [] \<longrightarrow>
          (\<exists>c \<in> set ?cand. ?kept = (snd c, fst c) \<and>
             (\<forall>c' \<in> set ?cand. length (fst c') \<le> length (fst c))))"
    using get_contours_keeps_largest_valid[OF fr, of example_find_contours example_contains_point "(4, 4)"]
    by (simp only: Let_def)
  then have "any_foreground (?preds ! 0) \<and> ?cand \<noteq> [] \<longrightarrow>
          (\<exists>c \<in> set ?cand. ?kept = (snd c, fst c) \<and>
             (\<forall>c' \<in> set ?cand. length (fst c') \<le> length (fst c)))"
    by (elim conjE)
  with fg ne have "\<exists>c \<in> set ?cand. ?kept = (snd c, fst c) \<and>
             (\<forall>c' \<in> set ?cand. length (fst c') \<le> length (fst c))"
    by (rule_tac mp) (assumption, rule conjI)
  then obtain c where c: "c \<in> set ?cand" "?kept = (snd c, fst c)"
    "\<forall>c' \<in> set ?cand. length (fst c') \<le> length (fst c)" by (elim bexE conjE)
  from c(1,3) have "c = ([Fin 1, Fin 1, Fin 3, Fin 3, Fin 1], [Fin 1, Fin 3, Fin 3, Fin 1, Fin 1])"
    unfolding cand by auto
  with c(2) show ?thesis by (simp only: fst_conv snd_conv)
qed

section \<open>Properties of the spline\<close>

lemma interpolate_ragged:
  "length (fst pts) \<noteq> length (snd pts) \<Longrightarrow> interpolate fit pts = Inl ValueError"
  by (simp add: interpolate_def)

lemma Spline_init_fit_failure:
  assumes "fst points \<noteq> []" "length (fst points) = length (snd points)"
    and "fit points = Inl ValueError"
  shows "Spline_init fit points = Inr \<lparr>knotpoints = None, full_contour = NoneNone\<rparr>"
  using assms by (auto simp: Spline_init_def setKnotPoints_def interpolate_def)

text \<open>\<open>interpolate\<close> catches ValueError only: any other exception of the fit leaves the
  constructor, unless it is the IndexError that \<open>setKnotPoints\<close> catches.\<close>

lemma Spline_init_other_error:
  assumes "fst points \<noteq> []" "length (fst points) = length (snd points)"
    and "fit points = Inl e" and "e \<noteq> ValueError" "e \<noteq> IndexError"
  shows "Spline_init fit points = Inl e"
  using assms by (cases e) (auto simp: Spline_init_def setKnotPoints_def interpolate_def)

lemma update_fit_failure:
  assumes "knotpoints self = Some (kx, ky)" "idx < length kx" "length kx = length ky"
    and "fit (kx[idx := fst pos], ky[idx := snd pos]) = Inl ValueError"
  shows "update fit self pos idx = Inl TypeError"
  using assms by (simp add: update_def write_at_def interpolate_def)

lemma update_without_knotpoints:
  "knotpoints self = None \<Longrightarrow> update fit self pos idx = Inl TypeError"
  by (simp add: update_def)

text \<open>
  C2 (a failed fit gives an explicit "no contour" result, never an exception, also in
  \<open>Spline.update\<close>): the code does otherwise on the edit path. The spline below is
  built from four distinct knots; moving knot 0 onto knot 1 makes the fit fail with
  ValueError, \<open>interpolate\<close> returns \<open>(None, None)\<close> as it does for the constructor,
  and \<open>update\<close> then takes \<open>len\<close> of \<open>None\<close>: TypeError.
\<close>

theorem update_after_failed_fit_raises:
  "Spline_init example_fit ([Fin 0, Fin 10, Fin 10, Fin 0], [Fin 0, Fin 0, Fin 10, Fin 10]) =
     Inr \<lparr>knotpoints = Some ([Fin 0, Fin 10, Fin 10, Fin 0], [Fin 0, Fin 0, Fin 10, Fin 10]),
          full_contour = Curve [Fin 0, Fin 10, Fin 10, Fin 0] [Fin 0, Fin 0, Fin 10, Fin 10]\<rparr>
   \<and> interpolate example_fit ([Fin 10, Fin 10, Fin 10, Fin 0], [Fin 0, Fin 0, Fin 10, Fin 10]) = Inr NoneNone
   \<and> update example_fit
        \<lparr>knotpoints = Some ([Fin 0, Fin 10, Fin 10, Fin 0], [Fin 0, Fin 0, Fin 10, Fin 10]),
         full_contour = Curve [Fin 0, Fin 10, Fin 10, Fin 0] [Fin 0, Fin 0, Fin 10, Fin 10]\<rparr>
        (Fin 10, Fin 0) 0 = Inl TypeError"
  by (simp add: Spline_init_def setKnotPoints_def update_def interpolate_def example_fit_def write_at_def)

section \<open>Properties of the metrics pass\<close>

text \<open>
  The call by which \<open>compute_all\<close> builds the dense contour of a frame names a keyword
  that \<open>Spline.__init__\<close> does not have, so it raises TypeError whatever the knots
  are. The loop body therefore ends at this call for every frame that is not skipped:
  with IndexError when the frame has no entry in the knot lists, with TypeError
  otherwise, and with the state as it was.
\<close>

lemma Spline_keyword_n_points: "Spline_keyword fit points ''n_points'' = Inl TypeError"
  by (simp add: Spline_keyword_def)

lemma compute_metrics_raises:
  "compute_metrics ev frame s =
     (Inl (if frame < length (fst (lumen (data (window s)))) \<and>
              frame < length (snd (lumen (data (window s))))
           then TypeError else IndexError), s)"
  by (simp add: compute_metrics_def bnd_def fetch_def read_at_def lift_def Spline_keyword_n_points)

lemma compute_frame_raises:
  "compute_frame ev suppress frame s =
     (Inl (if frame < length (fst (lumen (data (window s)))) \<and>
              frame < length (snd (lumen (data (window s))))
           then TypeError else IndexError), s)"
  by (simp add: compute_frame_def bnd_def compute_metrics_raises)

lemma already_computed_state: "snd (already_computed frame s) = s"
  by (simp add: already_computed_def bnd_def fetch_def ret_def read_at_def split: sum.splits)

text \<open>
  So the loop never changes the state, and it runs through only when it skips every
  frame; it is never canceled.
\<close>

lemma compute_all_loop_state: "snd (compute_all_loop ev suppress frames s) = s"
proof (induction frames)
  case Nil
  then show ?case by (simp add: ret_def)
next
  case (Cons frame frames)
  obtain r where r: "already_computed frame s = (r, s)"
    using already_computed_state[of frame s] by (cases "already_computed frame s") simp
  show ?case
  proof (cases r)
    case (Inl e)
    then show ?thesis using r by (simp add: bnd_def)
  next
    case (Inr skip)
    then show ?thesis using r Cons.IH by (simp add: bnd_def compute_frame_raises)
  qed
qed

lemma compute_all_loop_returns:
  assumes "fst (compute_all_loop ev suppress frames s) = Inr r"
  shows "r \<and> (\<forall>frame \<in> set frames. fst (already_computed frame s) = Inr True)"
  using assms
proof (induction frames)
  case Nil
  then show ?case by (simp add: ret_def)
next
  case (Cons frame frames)
  obtain a where a: "already_computed frame s = (a, s)"
    using already_computed_state[of frame s] by (cases "already_computed frame s") simp
  show ?case
  proof (cases a)
    case (Inl e)
    then show ?thesis using a Cons.prems by (simp add: bnd_def)
  next
    case (Inr skip)
    show ?thesis
    proof (cases skip)
      case True
      then show ?thesis using a Inr Cons by (simp add: bnd_def)
    next
      case False
      then show ?thesis using a Inr Cons.prems by (simp add: bnd_def compute_frame_raises)
    qed
  qed
qed

text \<open>
  The assignment of the ratio itself is guarded as the specification says: the division
  is reached only with a divisor that is not zero.
\<close>

lemma compute_elliptic_ratio_no_zero_division:
  "never_raises ZeroDivisionError (compute_elliptic_ratio ev frame)"
  by (auto simp: never_raises_def compute_elliptic_ratio_def bnd_def fetch_def read_at_def ret_def
      lift_def fdiv_def nonzero_def store_local_def write_at_def split: sum.splits)

text \<open>
  C8 (for every frame the elliptic ratio is the longest distance divided by the shortest
  distance whenever the shortest distance is not zero): the code does otherwise. The
  frame below has a contour, a stored longest distance of 30 and a stored shortest
  distance of 20, and no stored ratio, as in data that was saved before the ratio was
  added. The frame is not skipped, the call that builds its dense contour raises
  TypeError, and the pass ends there: the ratio of the frame is still the zero it was
  given at the start, not 30 / 20, and the key is still missing from the data.
\<close>

theorem elliptic_ratio_never_assigned:
  "compute_all ev example_window_older [0] suppress = (Inl TypeError, init_pass example_window_older)
   \<and> longest_distance (data example_window_older) = [Fin 30]
   \<and> shortest_distance (data example_window_older) = [Fin 20]
   \<and> loc_elliptic_ratio (init_pass example_window_older) = [Fin 0]
   \<and> elliptic_ratio (data (window (init_pass example_window_older))) = None"
  by (simp add: compute_all_def init_pass_def example_window_older_def example_window_def
      blank_data_def bnd_def already_computed_def fetch_def read_at_def ret_def nonzero_def
      compute_frame_raises)

text \<open>
  C9 (the metrics of a frame are computed once when it has a contour; frames already
  computed are skipped): the code does otherwise for the frames it does not skip. In
  the window below frame 0 has stored metrics and is skipped; frame 1 has a contour and
  no metrics yet, and the call that builds its dense contour raises TypeError, which
  leaves \<open>compute_all\<close> with every container as it was: the metrics of frame 1 are not
  computed.
\<close>

theorem metrics_pass_raises_at_uncomputed_frame:
  "compute_all ev example_window_two [0, 1] suppress = (Inl TypeError, init_pass example_window_two)
   \<and> window (init_pass example_window_two) = example_window_two
   \<and> fst (already_computed 0 (init_pass example_window_two)) = Inr True
   \<and> fst (already_computed 1 (init_pass example_window_two)) = Inr False"
  by (simp add: compute_all_def init_pass_def example_window_two_def
      blank_data_def bnd_def already_computed_def fetch_def read_at_def ret_def nonzero_def
      compute_frame_raises)

end
